theory Spec2Isabelle
  imports Main "HOL-Library.AList"
begin

section \<open>JavaScript values\<close>

text \<open>
  The notification service of \<^verbatim>\<open>src/Notifications.tsx\<close> passes message payloads around as
  untyped JavaScript values (\<^verbatim>\<open>data?: any\<close>). A value is modelled by the datatype below:
  the values that JSON can carry, and \<^verbatim>\<open>undefined\<close>. An object is the list of its own
  enumerable properties in enumeration order (the order of \<^verbatim>\<open>Object.keys\<close>); no property
  value is a function. Strings are byte strings (UTF-8).

  The service does no arithmetic: it prints numbers, tests them for truth and compares
  values with strings. A number is therefore represented by the text that
  \<^verbatim>\<open>Number.prototype.toString\<close> prints for it (the shortest digits that read back as the
  same double): \<open>JNum ''1.5''\<close>, \<open>JNum ''1152921504606847000''\<close> for \<open>2^60\<close>, \<open>JNum ''0''\<close> for
  both zeros, \<open>JNum ''NaN''\<close>, \<open>JNum ''Infinity''\<close>.
\<close>

datatype jsval =
    JUndefined
  | JNull
  | JBool bool
  | JNum string
  | JStr string
  | JArr "jsval list"
  | JObj "(string \<times> jsval) list"

type_synonym jsobject = "(string \<times> jsval) list"

text \<open>\<^verbatim>\<open>Array.prototype.join\<close> on strings.\<close>

fun intercalate :: "string \<Rightarrow> string list \<Rightarrow> string" where
  "intercalate sep [] = []"
| "intercalate sep [x] = x"
| "intercalate sep (x # y # ys) = x @ sep @ intercalate sep (y # ys)"

text \<open>Hexadecimal digits; \<open>digit_char\<close> is only applied to numbers below 16.\<close>

definition digit_char :: "nat \<Rightarrow> char" where
  "digit_char d = ''0123456789abcdef'' ! d"

text \<open>
  A thrown exception or a rejected promise is a value of type \<open>error\<close>; a call that can
  fail returns \<open>error + 'a\<close>, with \<open>Inl\<close> for the failure.
\<close>

datatype error = Error string

text \<open>The results of a sequence of calls: the first exception ends the sequence.\<close>

fun collect_results :: "(error + 'a) list \<Rightarrow> error + 'a list" where
  "collect_results [] = Inr []"
| "collect_results (Inl e # rs) = Inl e"
| "collect_results (Inr x # rs) =
     (case collect_results rs of Inl e \<Rightarrow> Inl e | Inr xs \<Rightarrow> Inr (x # xs))"

text \<open>
  \<^verbatim>\<open>String(v)\<close>. A string is itself and a number is its text. An array joins its elements
  with commas, printing \<^verbatim>\<open>null\<close> and \<^verbatim>\<open>undefined\<close> elements as the empty string. An object
  is converted by its \<^verbatim>\<open>toString\<close> method: the inherited one prints \<^verbatim>\<open>[object Object]\<close>; an
  own property \<^verbatim>\<open>toString\<close> hides it, and since that property is not a function (and
  \<^verbatim>\<open>valueOf\<close> yields no primitive either), the conversion throws a \<^verbatim>\<open>TypeError\<close>.
\<close>

definition TypeError_to_primitive :: error where
  "TypeError_to_primitive = Error ''TypeError: Cannot convert object to primitive value''"

fun String_js :: "jsval \<Rightarrow> error + string" where
  "String_js JUndefined = Inr ''undefined''"
| "String_js JNull = Inr ''null''"
| "String_js (JBool b) = Inr (if b then ''true'' else ''false'')"
| "String_js (JNum t) = Inr t"
| "String_js (JStr s) = Inr s"
| "String_js (JArr xs) =
     (case collect_results
             (map (\<lambda>x. if x = JUndefined \<or> x = JNull then Inr [] else String_js x) xs) of
        Inl e \<Rightarrow> Inl e
      | Inr ss \<Rightarrow> Inr (intercalate '','' ss))"
| "String_js (JObj kvs) =
     (if ''toString'' \<in> set (map fst kvs) then Inl TypeError_to_primitive
      else Inr ''[object Object]'')"

text \<open>Truthiness, as tested by \<^verbatim>\<open>||\<close> and \<^verbatim>\<open>if\<close>.\<close>

fun truthy :: "jsval \<Rightarrow> bool" where
  "truthy JUndefined = False"
| "truthy JNull = False"
| "truthy (JBool b) = b"
| "truthy (JNum t) = (t \<noteq> ''0'' \<and> t \<noteq> ''NaN'')"
| "truthy (JStr s) = (s \<noteq> [])"
| "truthy (JArr xs) = True"
| "truthy (JObj kvs) = True"

definition js_or :: "jsval \<Rightarrow> jsval \<Rightarrow> jsval" where
  "js_or a b = (if truthy a then a else b)"

text \<open>
  Property read \<^verbatim>\<open>obj[key]\<close>: \<^verbatim>\<open>undefined\<close> when the object has no such property. (The
  service reads the object's own keys and the names \<^verbatim>\<open>type\<close>, \<^verbatim>\<open>title\<close> and \<^verbatim>\<open>body\<close>, none of
  which an object inherits.)
\<close>

definition get_prop :: "jsobject \<Rightarrow> string \<Rightarrow> jsval" where
  "get_prop obj key = (case map_of obj key of None \<Rightarrow> JUndefined | Some v \<Rightarrow> v)"

definition Object_keys :: "jsobject \<Rightarrow> string list" where
  "Object_keys obj = map fst obj"

text \<open>
  Assignment \<^verbatim>\<open>obj[key] = s\<close> of a string to a property of an object literal: an existing
  property keeps its place, a new one goes last. On the key \<^verbatim>\<open>__proto__\<close> the assignment
  reaches the inherited setter, which ignores a string and creates no property.
\<close>

definition set_string_prop :: "jsobject \<Rightarrow> string \<Rightarrow> string \<Rightarrow> jsobject" where
  "set_string_prop obj key s =
     (if key = ''__proto__'' then obj else AList.update key (JStr s) obj)"

text \<open>Optional chaining \<^verbatim>\<open>data?.key\<close> on a value that is an object or \<^verbatim>\<open>undefined\<close>.\<close>

definition opt_prop :: "jsobject option \<Rightarrow> string \<Rightarrow> jsval" where
  "opt_prop data key = (case data of None \<Rightarrow> JUndefined | Some obj \<Rightarrow> get_prop obj key)"

subsection \<open>\<^verbatim>\<open>JSON.stringify\<close>\<close>

definition json_escape_char :: "char \<Rightarrow> string" where
  "json_escape_char c =
     (if c = CHR 0x22 then [CHR 0x5C, CHR 0x22]
      else if c = CHR 0x5C then [CHR 0x5C, CHR 0x5C]
      else if c = CHR 0x08 then [CHR 0x5C, CHR ''b'']
      else if c = CHR 0x0C then [CHR 0x5C, CHR ''f'']
      else if c = CHR 0x0A then [CHR 0x5C, CHR ''n'']
      else if c = CHR 0x0D then [CHR 0x5C, CHR ''r'']
      else if c = CHR 0x09 then [CHR 0x5C, CHR ''t'']
      else if (of_char c :: nat) < 0x20
        then [CHR 0x5C, CHR ''u'', CHR ''0'', CHR ''0'',
              digit_char (of_char c div 16), digit_char (of_char c mod 16)]
      else [c])"

definition json_quote :: "string \<Rightarrow> string" where
  "json_quote s = [CHR 0x22] @ concat (map json_escape_char s) @ [CHR 0x22]"

text \<open>
  \<open>None\<close> is the result \<^verbatim>\<open>undefined\<close>: an undefined member of an object is left out, an
  undefined element of an array is printed as \<^verbatim>\<open>null\<close>. A finite number is its text;
  \<^verbatim>\<open>NaN\<close> and the infinities are printed as \<^verbatim>\<open>null\<close>. (No value of the model has a
  callable \<^verbatim>\<open>toJSON\<close>, is a BigInt or contains itself, so the call does not throw.)
\<close>

definition json_number :: "string \<Rightarrow> string" where
  "json_number t =
     (if t = ''NaN'' \<or> t = ''Infinity'' \<or> t = ''-Infinity'' then ''null'' else t)"

fun JSON_stringify :: "jsval \<Rightarrow> string option" where
  "JSON_stringify JUndefined = None"
| "JSON_stringify JNull = Some ''null''"
| "JSON_stringify (JBool b) = Some (if b then ''true'' else ''false'')"
| "JSON_stringify (JNum t) = Some (json_number t)"
| "JSON_stringify (JStr s) = Some (json_quote s)"
| "JSON_stringify (JArr xs) =
     Some (''['' @ intercalate '',''
        (map (\<lambda>x. case JSON_stringify x of None \<Rightarrow> ''null'' | Some s \<Rightarrow> s) xs) @ '']'')"
| "JSON_stringify (JObj kvs) =
     Some (''{'' @ intercalate '',''
        (concat (map (\<lambda>(k, v). case JSON_stringify v of None \<Rightarrow> []
                 | Some s \<Rightarrow> [json_quote k @ '':'' @ s]) kvs)) @ ''}'')"

section \<open>The service, the device and the collaborators\<close>

text \<open>
  A step of the service that can fail returns its outcome together with the state it
  leaves behind: what was done before the failure stays done.

  A listener is a closure of the application. It is known to the service by its identity
  (\<^verbatim>\<open>indexOf\<close> compares references). When called it may itself call the service's \<open>on\<close> and
  \<open>off\<close>, and then it returns or throws; which calls it makes and how it ends is given by
  the environment, and may depend on the data and on the state it is called in.
\<close>

type_synonym callback = nat

datatype listener_call = CallOn string callback | CallOff string callback

datatype auth_status = NOT_DETERMINED | DENIED | AUTHORIZED | PROVISIONAL | EPHEMERAL

datatype android_importance = IMPORTANCE_HIGH | IMPORTANCE_DEFAULT | IMPORTANCE_LOW

datatype android_visibility = VISIBILITY_PUBLIC | VISIBILITY_PRIVATE | VISIBILITY_SECRET

record android_config =
  channelId :: string
  smallIcon :: string
  color :: string
  pressAction_id :: string
  pressAction_launchActivity :: string
  android_sound :: string
  lights :: "string \<times> nat \<times> nat"
  importance :: android_importance
  priority :: string
  visibility :: android_visibility
  autoCancel :: bool
  ongoing :: bool

record ios_config =
  ios_sound :: string
  critical :: bool
  criticalVolume :: nat

text \<open>The argument of \<^verbatim>\<open>notifee.displayNotification\<close>.\<close>

record display_payload =
  payload_title :: jsval
  payload_body :: jsval
  payload_data :: jsobject
  payload_android :: android_config
  payload_ios :: ios_config

text \<open>The argument of \<^verbatim>\<open>showLocalNotification\<close>: \<^verbatim>\<open>{title, body, data?}\<close>.\<close>

record display_request =
  req_title :: jsval
  req_body :: jsval
  req_data :: "jsobject option"

text \<open>A message of the push provider: \<^verbatim>\<open>{notification?: {title?, body?}, data?}\<close>.\<close>

record fcm_notification =
  n_title :: "string option"
  n_body :: "string option"

record remote_message =
  msg_notification :: "fcm_notification option"
  msg_data :: "jsobject option"

text \<open>
  What the service does to the outside, in the order it does it: the calls of the
  renderer, of the listeners, of \<^verbatim>\<open>setTimeout\<close>, of \<^verbatim>\<open>fetch\<close> and of \<^verbatim>\<open>console.error\<close>.
  \<open>SetTimeout ms event data\<close> is \<^verbatim>\<open>setTimeout(() => this.emit(event, data), ms)\<close>;
  \<open>ConsoleError\<close> logs a caught exception, \<open>ConsoleErrorData\<close> the data of a request.
\<close>

datatype effect =
    CreateChannel string
  | DisplayNotification display_payload
  | ListenerCalled string callback jsval
  | SetTimeout nat string jsval
  | HttpPost string string string
  | ConsoleError string error
  | ConsoleErrorData string "jsobject option"

text \<open>
  The state: the fields of the \<^verbatim>\<open>NotificationService\<close> singleton (\<open>listeners\<close>, \<open>fcmToken\<close>,
  \<open>notificationInitialized\<close>), the device's key-value storage, the handlers registered
  with the SDKs, and the effects so far.
\<close>

record state =
  listeners :: "string \<rightharpoonup> callback list"
  fcmToken :: "string option"
  notificationInitialized :: bool
  storage :: "string \<rightharpoonup> string"
  onMessage_registered :: bool
  backgroundHandler_registered :: bool
  onTokenRefresh_registered :: bool
  onForegroundEvent_registered :: bool
  effects :: "effect list"

text \<open>
  The environment: how each call of a collaborator (push provider, renderer, storage,
  backend, listeners) ends. The service's behaviour is stated for every environment.
\<close>

record env =
  platform_OS :: string
  requestPermission :: "error + auth_status"
  createChannel :: "error + unit"
  getToken :: "error + string"
  displayNotification :: "display_payload \<Rightarrow> error + unit"
  setItem_outcome :: "string \<Rightarrow> string \<Rightarrow> error + unit"
  getItem_outcome :: "string \<Rightarrow> error + unit"
  fetch_outcome :: "string \<Rightarrow> string \<Rightarrow> error + bool"
  onMessage :: "error + unit"
  setBackgroundMessageHandler :: "error + unit"
  onTokenRefresh :: "error + unit"
  getInitialNotification :: "error + jsobject option option"
  onForegroundEvent :: "error + unit"
  listener_behaviour :: "callback \<Rightarrow> jsval \<Rightarrow> state \<Rightarrow> listener_call list \<times> (error + unit)"

definition log_effect :: "effect \<Rightarrow> state \<Rightarrow> state" where
  "log_effect e st = st\<lparr>effects := effects st @ [e]\<rparr>"

text \<open>\<^verbatim>\<open>AsyncStorage.setItem\<close>: the write succeeds and the key holds the value, or it rejects.\<close>

definition AsyncStorage_setItem ::
  "env \<Rightarrow> string \<Rightarrow> string \<Rightarrow> state \<Rightarrow> (error + unit) \<times> state" where
  "AsyncStorage_setItem env key v st =
     (case setItem_outcome env key v of
        Inl e \<Rightarrow> (Inl e, st)
      | Inr _ \<Rightarrow> (Inr (), st\<lparr>storage := (storage st)(key \<mapsto> v)\<rparr>))"

definition AsyncStorage_getItem :: "env \<Rightarrow> string \<Rightarrow> state \<Rightarrow> error + string option" where
  "AsyncStorage_getItem env key st =
     (case getItem_outcome env key of
        Inl e \<Rightarrow> Inl e
      | Inr _ \<Rightarrow> Inr (storage st key))"

section \<open>Event emitter: \<^verbatim>\<open>on\<close>, \<^verbatim>\<open>off\<close>, \<^verbatim>\<open>emit\<close>\<close>

text \<open>
  \<^verbatim>\<open>on\<close>: create the event's array when the map has none, then push the callback.
\<close>

definition on :: "string \<Rightarrow> callback \<Rightarrow> state \<Rightarrow> state" where
  "on event cb st =
     (let callbacks = (case listeners st event of None \<Rightarrow> [] | Some cbs \<Rightarrow> cbs)
      in st\<lparr>listeners := (listeners st)(event \<mapsto> callbacks @ [cb])\<rparr>)"

text \<open>\<^verbatim>\<open>Array.prototype.indexOf\<close>: the first index holding the element, or \<open>-1\<close>.\<close>

fun indexOf :: "'a list \<Rightarrow> 'a \<Rightarrow> int" where
  "indexOf [] x = -1"
| "indexOf (y # ys) x =
     (if y = x then 0 else (let i = indexOf ys x in if i = -1 then -1 else i + 1))"

text \<open>\<^verbatim>\<open>callbacks.splice(index, 1)\<close> for an index in range.\<close>

definition splice1 :: "'a list \<Rightarrow> nat \<Rightarrow> 'a list" where
  "splice1 xs i = take i xs @ drop (Suc i) xs"

definition off :: "string \<Rightarrow> callback \<Rightarrow> state \<Rightarrow> state" where
  "off event cb st =
     (case listeners st event of
        None \<Rightarrow> st
      | Some callbacks \<Rightarrow>
          (let index = indexOf callbacks cb
           in if index > -1
              then st\<lparr>listeners := (listeners st)(event \<mapsto> splice1 callbacks (nat index))\<rparr>
              else st))"

text \<open>The event's array of callbacks; an event the map does not have has none.\<close>

definition listeners_of :: "state \<Rightarrow> string \<Rightarrow> callback list" where
  "listeners_of st event = (case listeners st event of None \<Rightarrow> [] | Some cbs \<Rightarrow> cbs)"

fun run_listener_call :: "listener_call \<Rightarrow> state \<Rightarrow> state" where
  "run_listener_call (CallOn event cb) st = on event cb st"
| "run_listener_call (CallOff event cb) st = off event cb st"

text \<open>
  The body of the \<^verbatim>\<open>forEach\<close> in \<^verbatim>\<open>emit\<close>: call the listener inside \<^verbatim>\<open>try\<close>; the listener
  runs, making its calls of \<open>on\<close> and \<open>off\<close>; an exception is logged and the loop goes on.
\<close>

definition call_listener :: "env \<Rightarrow> string \<Rightarrow> jsval \<Rightarrow> callback \<Rightarrow> state \<Rightarrow> state" where
  "call_listener env event d cb st =
     (let st1 = log_effect (ListenerCalled event cb d) st;
          st2 = fold run_listener_call (fst (listener_behaviour env cb d st1)) st1
      in case snd (listener_behaviour env cb d st1) of
           Inr _ \<Rightarrow> st2
         | Inl e \<Rightarrow> log_effect (ConsoleError ''Error in listener'' e) st2)"

text \<open>
  \<^verbatim>\<open>Array.prototype.forEach\<close> on the event's array, from index \<open>k\<close>. The length \<open>len\<close> is
  read once, before the first call; the elements are read from the array as it is when
  their turn comes, and an index the array no longer has is passed over. The array is the
  one that \<open>on\<close> pushes to and \<open>off\<close> splices.
\<close>

function forEach_listener ::
  "env \<Rightarrow> string \<Rightarrow> jsval \<Rightarrow> nat \<Rightarrow> nat \<Rightarrow> state \<Rightarrow> state" where
  "forEach_listener env event d k len st =
     (if k < len
      then (if k < length (listeners_of st event)
            then forEach_listener env event d (Suc k) len
                   (call_listener env event d (listeners_of st event ! k) st)
            else forEach_listener env event d (Suc k) len st)
      else st)"
  by pat_completeness auto
termination
  by (relation "measure (\<lambda>(env, event, d, k, len, st). len - k)") auto

declare forEach_listener.simps [simp del]

definition emit :: "env \<Rightarrow> string \<Rightarrow> jsval \<Rightarrow> state \<Rightarrow> state" where
  "emit env event d st =
     (case listeners st event of
        None \<Rightarrow> st
      | Some callbacks \<Rightarrow> forEach_listener env event d 0 (length callbacks) st)"

section \<open>Displaying a notification\<close>

definition API_BASE :: string where
  "API_BASE = ''https://backendddd-2xa6.onrender.com''"

text \<open>The default texts; the title starts with the taxi emoji U+1F696 (four bytes).\<close>

definition default_title :: string where
  "default_title = [CHR 0xF0, CHR 0x9F, CHR 0x9A, CHR 0x96] @ '' New Ride Request''"

definition default_body :: string where
  "default_body = ''Tap to view ride details''"

definition androidConfig :: android_config where
  "androidConfig =
     \<lparr> channelId = ''high_priority_channel'',
       smallIcon = ''ic_launcher'',
       color = ''#FF0000'',
       pressAction_id = ''default'',
       pressAction_launchActivity = ''default'',
       android_sound = ''notification'',
       lights = (''#FF0000'', 300, 1000),
       importance = IMPORTANCE_HIGH,
       priority = ''high'',
       visibility = VISIBILITY_PUBLIC,
       autoCancel = False,
       ongoing = False \<rparr>"

definition iosConfig :: ios_config where
  "iosConfig = \<lparr> ios_sound = ''default'', critical = True, criticalVolume = 1 \<rparr>"

text \<open>
  The loop \<^verbatim>\<open>Object.keys(data).forEach(key => { stringData[key] = String(data[key]) })\<close>
  over the keys that are left, on the object built so far. An exception of \<^verbatim>\<open>String\<close>
  ends the loop.
\<close>

fun coerce_keys :: "jsobject \<Rightarrow> string list \<Rightarrow> jsobject \<Rightarrow> error + jsobject" where
  "coerce_keys d [] stringData = Inr stringData"
| "coerce_keys d (key # keys) stringData =
     (case String_js (get_prop d key) of
        Inl e \<Rightarrow> Inl e
      | Inr s \<Rightarrow> coerce_keys d keys (set_string_prop stringData key s))"

definition stringData_of :: "jsobject \<Rightarrow> error + jsobject" where
  "stringData_of d = coerce_keys d (Object_keys d) []"

text \<open>The argument of the render call, when the coercion of the data does not throw.\<close>

definition display_payload_of :: "display_request \<Rightarrow> error + display_payload" where
  "display_payload_of notification =
     (case (case req_data notification of None \<Rightarrow> Inr [] | Some d \<Rightarrow> stringData_of d) of
        Inl e \<Rightarrow> Inl e
      | Inr stringData \<Rightarrow>
          Inr \<lparr> payload_title = req_title notification,
                payload_body = req_body notification,
                payload_data = stringData,
                payload_android = androidConfig,
                payload_ios = iosConfig \<rparr>)"

text \<open>The \<^verbatim>\<open>catch\<close> block of \<^verbatim>\<open>showLocalNotification\<close>: two calls of \<^verbatim>\<open>console.error\<close>.\<close>

definition log_show_error :: "error \<Rightarrow> display_request \<Rightarrow> state \<Rightarrow> state" where
  "log_show_error e notification st =
     log_effect (ConsoleErrorData ''Problematic data'' (req_data notification))
       (log_effect (ConsoleError ''Error showing notification'' e) st)"

text \<open>
  \<^verbatim>\<open>showLocalNotification\<close>: the whole body is inside \<^verbatim>\<open>try\<close>. When the coercion throws,
  no render call is made; when the render call is rejected, it has been made. Either
  way the exception ends in the \<^verbatim>\<open>catch\<close> and the function returns normally.
\<close>

definition showLocalNotification :: "env \<Rightarrow> display_request \<Rightarrow> state \<Rightarrow> state" where
  "showLocalNotification env notification st =
     (case display_payload_of notification of
        Inl e \<Rightarrow> log_show_error e notification st
      | Inr payload \<Rightarrow>
          (let st1 = log_effect (DisplayNotification payload) st
           in case displayNotification env payload of
                Inr _ \<Rightarrow> st1
              | Inl e \<Rightarrow> log_show_error e notification st1))"

definition testNotification :: "env \<Rightarrow> state \<Rightarrow> state" where
  "testNotification env st =
     showLocalNotification env
       \<lparr> req_title = JStr ([CHR 0xF0, CHR 0x9F, CHR 0x94, CHR 0x8A] @ '' Sound Test''),
         req_body = JStr ''This should work NOW without vibration errors!'',
         req_data = Some [(''test'', JStr ''true''), (''sound'', JStr ''enabled''),
                          (''type'', JStr ''test_notification'')] \<rparr>
       st"

section \<open>Message handlers\<close>

definition opt_string :: "string option \<Rightarrow> jsval" where
  "opt_string s = (case s of None \<Rightarrow> JUndefined | Some x \<Rightarrow> JStr x)"

text \<open>\<^verbatim>\<open>remoteMessage.notification?.title\<close> and \<^verbatim>\<open>remoteMessage.notification?.body\<close>.\<close>

definition notification_title :: "remote_message \<Rightarrow> jsval" where
  "notification_title msg =
     (case msg_notification msg of None \<Rightarrow> JUndefined | Some n \<Rightarrow> opt_string (n_title n))"

definition notification_body :: "remote_message \<Rightarrow> jsval" where
  "notification_body msg =
     (case msg_notification msg of None \<Rightarrow> JUndefined | Some n \<Rightarrow> opt_string (n_body n))"

text \<open>The request built by the callback of \<^verbatim>\<open>setupForegroundHandler\<close>.\<close>

definition foreground_request :: "remote_message \<Rightarrow> display_request" where
  "foreground_request msg =
     \<lparr> req_title = js_or (notification_title msg) (JStr default_title),
       req_body = js_or (notification_body msg) (JStr default_body),
       req_data = msg_data msg \<rparr>"

text \<open>The request built by the callback of \<^verbatim>\<open>setupBackgroundHandler\<close>.\<close>

definition background_request :: "remote_message \<Rightarrow> display_request" where
  "background_request msg =
     \<lparr> req_title = js_or (opt_prop (msg_data msg) ''title'') (JStr default_title),
       req_body = js_or (opt_prop (msg_data msg) ''body'') (JStr default_body),
       req_data = msg_data msg \<rparr>"

text \<open>
  The callback passed to \<^verbatim>\<open>messaging().onMessage\<close>. It is an \<^verbatim>\<open>async\<close> function: the
  outcome \<open>Inl\<close> is a rejected promise, \<open>Inr\<close> a resolved one.
\<close>

definition foregroundMessageHandler ::
  "env \<Rightarrow> remote_message \<Rightarrow> state \<Rightarrow> (error + unit) \<times> state" where
  "foregroundMessageHandler env remoteMessage st =
     (let st1 = showLocalNotification env (foreground_request remoteMessage) st
      in case msg_data remoteMessage of
           None \<Rightarrow> (Inr (), st1)
         | Some d \<Rightarrow>
             if get_prop d ''type'' = JStr ''ride_request''
             then (Inr (), emit env ''rideRequest'' (JObj d) st1)
             else (Inr (), st1))"

text \<open>
  The callback passed to \<^verbatim>\<open>messaging().setBackgroundMessageHandler\<close>. The storage write
  is awaited outside any \<^verbatim>\<open>try\<close>: when it rejects, so does the callback. (The branch
  \<open>None\<close> of the serialisation is never taken: an object always serialises to a string.)
\<close>

definition backgroundMessageHandler ::
  "env \<Rightarrow> remote_message \<Rightarrow> state \<Rightarrow> (error + unit) \<times> state" where
  "backgroundMessageHandler env remoteMessage st =
     (let st1 = showLocalNotification env (background_request remoteMessage) st
      in case msg_data remoteMessage of
           None \<Rightarrow> (Inr (), st1)
         | Some d \<Rightarrow>
             if get_prop d ''type'' = JStr ''ride_request''
             then (case JSON_stringify (JObj d) of
                     None \<Rightarrow> (Inl (Error ''setItem: value is undefined''), st1)
                   | Some s \<Rightarrow> AsyncStorage_setItem env ''pendingRideRequest'' s st1)
             else (Inr (), st1))"

text \<open>The body of the request that sends a refreshed token to the backend.\<close>

definition update_token_request_body :: "env \<Rightarrow> string \<Rightarrow> string option" where
  "update_token_request_body env newToken =
     JSON_stringify (JObj [(''driverId'', JStr ''YOUR_DRIVER_ID''),
                           (''fcmToken'', JStr newToken),
                           (''platform'', JStr (platform_OS env))])"

text \<open>The inner \<^verbatim>\<open>try\<close> block of the callback: the best-effort update of the backend.\<close>

definition update_token_on_server ::
  "env \<Rightarrow> string \<Rightarrow> state \<Rightarrow> (error + unit) \<times> state" where
  "update_token_on_server env newToken st =
     (case AsyncStorage_getItem env ''authToken'' st of
        Inl e \<Rightarrow> (Inl e, st)
      | Inr authToken \<Rightarrow>
          (case authToken of
             None \<Rightarrow> (Inr (), st)
           | Some a \<Rightarrow>
               if a = [] then (Inr (), st)
               else (case update_token_request_body env newToken of
                       None \<Rightarrow> (Inl (Error ''fetch: body is undefined''), st)
                     | Some body \<Rightarrow>
                         (let url = API_BASE @ ''/drivers/update-fcm-token'';
                              st1 = log_effect (HttpPost url (''Bearer '' @ a) body) st
                          in case fetch_outcome env url body of
                               Inl e \<Rightarrow> (Inl e, st1)
                             | Inr ok \<Rightarrow> (Inr (), st1)))))"

text \<open>
  The callback passed to \<^verbatim>\<open>messaging().onTokenRefresh\<close>: the backend update, whose failure
  is logged, then the \<open>tokenRefresh\<close> event.
\<close>

definition tokenRefreshHandler ::
  "env \<Rightarrow> string \<Rightarrow> state \<Rightarrow> (error + unit) \<times> state" where
  "tokenRefreshHandler env newToken st =
     (let st1 = (case update_token_on_server env newToken st of
                   (Inr _, st') \<Rightarrow> st'
                 | (Inl e, st') \<Rightarrow> log_effect (ConsoleError ''Error updating FCM token'' e) st')
      in (Inr (), emit env ''tokenRefresh'' (JStr newToken) st1))"

section \<open>Initialisation\<close>

text \<open>\<^verbatim>\<open>createNotificationChannel\<close>: on Android only; a failure is logged and swallowed.\<close>

definition createNotificationChannel :: "env \<Rightarrow> state \<Rightarrow> state" where
  "createNotificationChannel env st =
     (if platform_OS env = ''android''
      then (case createChannel env of
              Inr _ \<Rightarrow> log_effect (CreateChannel ''high_priority_channel'') st
            | Inl e \<Rightarrow> log_effect (ConsoleError ''Error creating notification channel'' e) st)
      else st)"

text \<open>
  \<^verbatim>\<open>getFCMToken\<close>: a non-empty token is cached in the field, then persisted; every failure
  ends in the \<^verbatim>\<open>catch\<close>, which returns \<^verbatim>\<open>null\<close>.
\<close>

definition getFCMToken :: "env \<Rightarrow> state \<Rightarrow> string option \<times> state" where
  "getFCMToken env st =
     (case getToken env of
        Inl e \<Rightarrow> (None, log_effect (ConsoleError ''Error getting FCM token'' e) st)
      | Inr token \<Rightarrow>
          if token \<noteq> []
          then (let st1 = st\<lparr>fcmToken := Some token\<rparr>
                in case AsyncStorage_setItem env ''fcmToken'' token st1 of
                     (Inr _, st2) \<Rightarrow> (Some token, st2)
                   | (Inl e, st2) \<Rightarrow>
                       (None, log_effect (ConsoleError ''Error getting FCM token'' e) st2))
          else (None, st))"

definition setupForegroundHandler :: "env \<Rightarrow> state \<Rightarrow> state" where
  "setupForegroundHandler env st =
     (case onMessage env of
        Inr _ \<Rightarrow> st\<lparr>onMessage_registered := True\<rparr>
      | Inl e \<Rightarrow> log_effect (ConsoleError ''Error setting up foreground handler'' e) st)"

definition setupBackgroundHandler :: "env \<Rightarrow> state \<Rightarrow> state" where
  "setupBackgroundHandler env st =
     (case setBackgroundMessageHandler env of
        Inr _ \<Rightarrow> st\<lparr>backgroundHandler_registered := True\<rparr>
      | Inl e \<Rightarrow> log_effect (ConsoleError ''Background handler setup failed'' e) st)"

definition setupTokenRefreshHandler :: "env \<Rightarrow> state \<Rightarrow> state" where
  "setupTokenRefreshHandler env st =
     (case onTokenRefresh env of
        Inr _ \<Rightarrow> st\<lparr>onTokenRefresh_registered := True\<rparr>
      | Inl e \<Rightarrow> log_effect (ConsoleError ''Error setting up token refresh handler'' e) st)"

text \<open>
  \<^verbatim>\<open>initializeNotifications\<close>: the result is the returned boolean. An exception of the
  permission request is caught by the outer \<^verbatim>\<open>catch\<close>, which returns \<^verbatim>\<open>false\<close>.
\<close>

definition initializeNotifications :: "env \<Rightarrow> state \<Rightarrow> bool \<times> state" where
  "initializeNotifications env st =
     (case requestPermission env of
        Inl e \<Rightarrow>
          (False, log_effect (ConsoleError ''Error in notification system initialization'' e) st)
      | Inr authStatus \<Rightarrow>
          (let enabled = (authStatus = AUTHORIZED \<or> authStatus = PROVISIONAL)
           in if \<not> enabled then (False, st)
              else (let st1 = createNotificationChannel env st;
                        st2 = snd (getFCMToken env st1);
                        st3 = setupForegroundHandler env st2;
                        st4 = setupBackgroundHandler env st3;
                        st5 = setupTokenRefreshHandler env st4
                    in (True, st5\<lparr>notificationInitialized := True\<rparr>))))"

section \<open>Startup replay\<close>

text \<open>
  \<^verbatim>\<open>checkPendingNotifications\<close>. The environment gives the result of
  \<^verbatim>\<open>notifee.getInitialNotification()\<close>: \<open>None\<close> for \<^verbatim>\<open>null\<close>, otherwise the \<^verbatim>\<open>data\<close> of
  the initial notification's \<^verbatim>\<open>notification\<close>, itself optional.
\<close>

definition checkPendingNotifications :: "env \<Rightarrow> state \<Rightarrow> state" where
  "checkPendingNotifications env st =
     (case getInitialNotification env of
        Inl e \<Rightarrow> log_effect (ConsoleError ''Error checking pending notifications'' e) st
      | Inr initialNotification \<Rightarrow>
          (let st1 =
             (case initialNotification of
                None \<Rightarrow> st
              | Some None \<Rightarrow> st
              | Some (Some d) \<Rightarrow>
                  if get_prop d ''type'' = JStr ''ride_request''
                  then log_effect (SetTimeout 3000 ''rideRequest'' (JObj d)) st
                  else st)
           in case onForegroundEvent env of
                Inr _ \<Rightarrow> st1\<lparr>onForegroundEvent_registered := True\<rparr>
              | Inl e \<Rightarrow>
                  log_effect (ConsoleError ''Error checking pending notifications'' e) st1))"

text \<open>What a timer set by \<open>SetTimeout\<close> does when it fires.\<close>

fun fire_timer :: "env \<Rightarrow> effect \<Rightarrow> state \<Rightarrow> state" where
  "fire_timer env (SetTimeout ms event d) st = emit env event d st"
| "fire_timer env _ st = st"

text \<open>
  The callback passed to \<^verbatim>\<open>notifee.onForegroundEvent\<close>, on an event of type \<open>ty\<close> whose
  detail carries a notification with the given \<^verbatim>\<open>data\<close> (or none).
\<close>

definition foregroundEventHandler :: "env \<Rightarrow> jsval \<Rightarrow> jsobject option option \<Rightarrow> state \<Rightarrow> state" where
  "foregroundEventHandler env ty detail_notification st =
     (if ty = JStr ''press''
      then (case detail_notification of
              Some (Some d) \<Rightarrow>
                if get_prop d ''type'' = JStr ''ride_request''
                then emit env ''rideRequest'' (JObj d) st
                else st
            | _ \<Rightarrow> st)
      else st)"

section \<open>Observations\<close>

text \<open>The effects a step added, and among effects the listener calls and the timers.\<close>

definition new_effects :: "state \<Rightarrow> state \<Rightarrow> effect list" where
  "new_effects st st' = drop (length (effects st)) (effects st')"

fun listener_calls :: "effect list \<Rightarrow> (string \<times> callback \<times> jsval) list" where
  "listener_calls [] = []"
| "listener_calls (ListenerCalled event cb d # es) = (event, cb, d) # listener_calls es"
| "listener_calls (_ # es) = listener_calls es"

fun displayed :: "effect list \<Rightarrow> display_payload list" where
  "displayed [] = []"
| "displayed (DisplayNotification p # es) = p # displayed es"
| "displayed (_ # es) = displayed es"

fun timers :: "effect list \<Rightarrow> (nat \<times> string \<times> jsval) list" where
  "timers [] = []"
| "timers (SetTimeout ms event d # es) = (ms, event, d) # timers es"
| "timers (_ # es) = timers es"

text \<open>
  The effects are calls of the event's listeners with the data, and no render call or timer.
\<close>

definition only_calls :: "string \<Rightarrow> jsval \<Rightarrow> effect list \<Rightarrow> bool" where
  "only_calls event d es =
     (displayed es = [] \<and> timers es = []
      \<and> (\<forall>c \<in> set (listener_calls es). fst c = event \<and> snd (snd c) = d))"

text \<open>The render calls that \<open>showLocalNotification\<close> makes on a request: one, or none.\<close>

definition render_calls :: "display_request \<Rightarrow> display_payload list" where
  "render_calls notification =
     (case display_payload_of notification of Inl e \<Rightarrow> [] | Inr payload \<Rightarrow> [payload])"

text \<open>
  Every property of the object has a string form: \<^verbatim>\<open>String\<close> throws on none of them. A
  request is printable when its data is, or when it has no data.
\<close>

definition printable :: "jsobject \<Rightarrow> bool" where
  "printable obj = (\<forall>key \<in> set (Object_keys obj). \<exists>s. String_js (get_prop obj key) = Inr s)"

definition printable_request :: "display_request \<Rightarrow> bool" where
  "printable_request notification =
     (case req_data notification of None \<Rightarrow> True | Some d \<Rightarrow> printable d)"

text \<open>
  No listener among \<open>cbs\<close>, called with \<open>d\<close> in whatever state, calls \<open>off\<close> for the event.
\<close>

definition no_off_during :: "env \<Rightarrow> string \<Rightarrow> jsval \<Rightarrow> callback list \<Rightarrow> bool" where
  "no_off_during env event d cbs =
     (\<forall>cb \<in> set cbs. \<forall>st c. CallOff event c \<notin> set (fst (listener_behaviour env cb d st)))"

text \<open>An object all of whose property values are strings.\<close>

definition all_strings :: "jsobject \<Rightarrow> bool" where
  "all_strings obj = (\<forall>(k, v) \<in> set obj. \<exists>s. v = JStr s)"

text \<open>
  The fresh singleton (the field initialisers of the class) on a device with empty
  storage, and an environment in which every collaborator succeeds and every listener
  returns without calling the service.
\<close>

definition initial_state :: state where
  "initial_state =
     \<lparr> listeners = Map.empty,
       fcmToken = None,
       notificationInitialized = False,
       storage = Map.empty,
       onMessage_registered = False,
       backgroundHandler_registered = False,
       onTokenRefresh_registered = False,
       onForegroundEvent_registered = False,
       effects = [] \<rparr>"

definition nominal_env :: env where
  "nominal_env =
     \<lparr> platform_OS = ''android'',
       requestPermission = Inr AUTHORIZED,
       createChannel = Inr (),
       getToken = Inr ''token-1'',
       displayNotification = (\<lambda>p. Inr ()),
       setItem_outcome = (\<lambda>k v. Inr ()),
       getItem_outcome = (\<lambda>k. Inr ()),
       fetch_outcome = (\<lambda>url body. Inr True),
       onMessage = Inr (),
       setBackgroundMessageHandler = Inr (),
       onTokenRefresh = Inr (),
       getInitialNotification = Inr None,
       onForegroundEvent = Inr (),
       listener_behaviour = (\<lambda>cb d st. ([], Inr ())) \<rparr>"

section \<open>Sample scenarios\<close>

text \<open>The data of the ride request used in the examples.\<close>

definition ride_data :: jsobject where
  "ride_data = [(''type'', JStr ''ride_request''), (''rideId'', JStr ''7'')]"

text \<open>
  An environment in which listener \<open>A\<close> throws whenever it is called, and one in which it
  first unregisters itself from the event it is called for (\<open>rideRequest\<close>) and then throws.
\<close>

definition faulty_env :: "callback \<Rightarrow> env" where
  "faulty_env A =
     nominal_env\<lparr>listener_behaviour :=
       (\<lambda>cb d st. if cb = A then ([], Inl (Error ''listener failed'')) else ([], Inr ()))\<rparr>"


definition two_listeners_state :: state where
  "two_listeners_state = on ''rideRequest'' 2 (on ''rideRequest'' 1 initial_state)"

definition twice_registered_state :: state where
  "twice_registered_state = on ''rideRequest'' 1 (on ''rideRequest'' 1 initial_state)"

text \<open>
  A display request whose data holds a boolean, two numbers (\<open>2^60\<close> and \<open>1.5\<close>) and a nested
  object, with the payload expected for it; and a request whose data holds an object with
  an own \<^verbatim>\<open>toString\<close> property.
\<close>

definition flag_data :: jsobject where
  "flag_data = [(''test'', JBool True), (''count'', JNum ''1152921504606847000''),
                (''rate'', JNum ''1.5''), (''nested'', JObj [(''a'', JNull)])]"

definition flag_request :: display_request where
  "flag_request =
     \<lparr> req_title = JStr ''Sound Test'', req_body = JStr ''Body'', req_data = Some flag_data \<rparr>"

definition flag_payload :: display_payload where
  "flag_payload =
     \<lparr> payload_title = JStr ''Sound Test'',
       payload_body = JStr ''Body'',
       payload_data = [(''test'', JStr ''true''), (''count'', JStr ''1152921504606847000''),
                       (''rate'', JStr ''1.5''), (''nested'', JStr ''[object Object]'')],
       payload_android = androidConfig,
       payload_ios = iosConfig \<rparr>"

definition opaque_data :: jsobject where
  "opaque_data = [(''type'', JStr ''ride_request''), (''extra'', JObj [(''toString'', JNum ''1'')])]"

definition opaque_request :: display_request where
  "opaque_request =
     \<lparr> req_title = JStr ''Sound Test'', req_body = JStr ''Body'', req_data = Some opaque_data \<rparr>"

text \<open>
  Data-only messages: a ride request, a ride request that carries a number, and a
  message of another type.
\<close>

definition ride_message :: remote_message where
  "ride_message = \<lparr> msg_notification = None, msg_data = Some ride_data \<rparr>"

definition fare_data :: jsobject where
  "fare_data = [(''type'', JStr ''ride_request''), (''fare'', JNum ''120'')]"

definition fare_message :: remote_message where
  "fare_message = \<lparr> msg_notification = None, msg_data = Some fare_data \<rparr>"

definition promo_message :: remote_message where
  "promo_message = \<lparr> msg_notification = None, msg_data = Some [(''type'', JStr ''promo'')] \<rparr>"

text \<open>
  A ride request that also has a notification block, a data-only ride request whose data
  carries its own title, and environments in which the storage write or the render call
  fails.
\<close>

definition titled_message :: remote_message where
  "titled_message =
     \<lparr> msg_notification = Some \<lparr> n_title = Some ''Pickup at the airport'', n_body = Some ''2 km away'' \<rparr>,
       msg_data = Some ride_data \<rparr>"

definition titled_data :: jsobject where
  "titled_data = [(''type'', JStr ''ride_request''), (''rideId'', JStr ''7''),
                  (''title'', JStr ''Pickup at the airport'')]"

definition titled_data_message :: remote_message where
  "titled_data_message = \<lparr> msg_notification = None, msg_data = Some titled_data \<rparr>"

definition storage_failing_env :: env where
  "storage_failing_env = nominal_env\<lparr>setItem_outcome := (\<lambda>k v. Inl (Error ''storage write failed''))\<rparr>"

definition render_failing_env :: env where
  "render_failing_env = nominal_env\<lparr>displayNotification := (\<lambda>p. Inl (Error ''render failed''))\<rparr>"

text \<open>
  The state after \<open>getFCMToken\<close> has cached and persisted a first token; environments in
  which permission is denied, in which channel creation and token retrieval both fail,
  and in which the app was started from a notification with the given data.
\<close>

definition token_cached_state :: state where
  "token_cached_state = snd (getFCMToken nominal_env initial_state)"

definition denied_env :: env where
  "denied_env = nominal_env\<lparr>requestPermission := Inr DENIED\<rparr>"

definition provider_failing_env :: env where
  "provider_failing_env =
     nominal_env\<lparr>createChannel := Inl (Error ''channel creation failed''),
                  getToken := Inl (Error ''token retrieval failed'')\<rparr>"

definition cold_start_data :: jsobject where
  "cold_start_data = [(''type'', JStr ''ride_request''), (''rideId'', JStr ''42'')]"

definition cold_start_env :: "jsobject \<Rightarrow> env" where
  "cold_start_env d = nominal_env\<lparr>getInitialNotification := Inr (Some (Some d))\<rparr>"

section \<open>Basic facts\<close>

lemma effects_log_effect [simp]: "effects (log_effect e st) = effects st @ [e]"
  by (simp add: log_effect_def)

lemma listeners_log_effect [simp]: "listeners (log_effect e st) = listeners st"
  by (simp add: log_effect_def)

lemma listeners_of_log_effect [simp]: "listeners_of (log_effect e st) event = listeners_of st event"
  by (simp add: listeners_of_def)

lemma fcmToken_log_effect [simp]: "fcmToken (log_effect e st) = fcmToken st"
  by (simp add: log_effect_def)

lemma storage_log_effect [simp]: "storage (log_effect e st) = storage st"
  by (simp add: log_effect_def)

lemma new_effects_append [simp]: "effects st' = effects st @ es \<Longrightarrow> new_effects st st' = es"
  by (simp add: new_effects_def)

lemma new_effects_same [simp]: "new_effects st st = []"
  by (simp add: new_effects_def)

lemma listener_calls_append [simp]:
  "listener_calls (xs @ ys) = listener_calls xs @ listener_calls ys"
  by (induction xs rule: listener_calls.induct) simp_all

lemma displayed_append [simp]: "displayed (xs @ ys) = displayed xs @ displayed ys"
  by (induction xs rule: displayed.induct) simp_all

lemma timers_append [simp]: "timers (xs @ ys) = timers xs @ timers ys"
  by (induction xs rule: timers.induct) simp_all

lemma only_calls_Nil [simp]: "only_calls event d []"
  by (simp add: only_calls_def)

lemma only_calls_append:
  "only_calls event d xs \<Longrightarrow> only_calls event d ys \<Longrightarrow> only_calls event d (xs @ ys)"
  by (auto simp: only_calls_def)

subsection \<open>Registration\<close>

lemma on_fields [simp]:
  "effects (on event cb st) = effects st"
  "fcmToken (on event cb st) = fcmToken st"
  "storage (on event cb st) = storage st"
  by (simp_all add: on_def Let_def)

lemma off_fields [simp]:
  "effects (off event cb st) = effects st"
  "fcmToken (off event cb st) = fcmToken st"
  "storage (off event cb st) = storage st"
  by (simp_all add: off_def Let_def split: option.splits)

lemma listeners_of_on: "listeners_of (on event cb st) event = listeners_of st event @ [cb]"
  by (simp add: on_def listeners_of_def Let_def split: option.splits)

lemma listeners_of_on_other:
  "event' \<noteq> event \<Longrightarrow> listeners_of (on event' cb st) event = listeners_of st event"
  by (simp add: on_def listeners_of_def Let_def)

lemma listeners_of_off_other:
  "event' \<noteq> event \<Longrightarrow> listeners_of (off event' cb st) event = listeners_of st event"
  by (simp add: off_def listeners_of_def Let_def split: option.splits)

lemma indexOf_ge: "indexOf xs x \<ge> -1"
  by (induction xs) (simp_all add: Let_def)

lemma indexOf_absent: "indexOf xs x = -1 \<longleftrightarrow> x \<notin> set xs"
proof (induction xs)
  case Nil
  show ?case by simp
next
  case (Cons y ys)
  from indexOf_ge [of ys x] have "indexOf ys x + 1 \<noteq> -1" by linarith
  with Cons.IH show ?case by (simp add: Let_def)
qed

lemma splice1_indexOf:
  "x \<in> set xs \<Longrightarrow> splice1 xs (nat (indexOf xs x)) = remove1 x xs"
proof (induction xs)
  case Nil then show ?case by simp
next
  case (Cons y ys)
  show ?case
  proof (cases "y = x")
    case True then show ?thesis by (simp add: splice1_def)
  next
    case False
    with Cons.prems have mem: "x \<in> set ys" by simp
    then have ne: "indexOf ys x \<noteq> -1" by (simp add: indexOf_absent)
    with indexOf_ge [of ys x] have nn: "0 \<le> indexOf ys x" by linarith
    then have "nat (indexOf ys x + 1) = Suc (nat (indexOf ys x))" by linarith
    with False ne Cons.IH [OF mem] show ?thesis
      by (simp add: splice1_def Let_def)
  qed
qed

lemma listeners_of_off:
  "listeners_of (off event cb st) event = remove1 cb (listeners_of st event)"
proof (cases "listeners st event")
  case None then show ?thesis by (simp add: off_def listeners_of_def)
next
  case (Some cbs)
  show ?thesis
  proof (cases "cb \<in> set cbs")
    case True
    then have "indexOf cbs cb \<noteq> -1" by (simp add: indexOf_absent)
    with indexOf_ge [of cbs cb] have "indexOf cbs cb > -1" by linarith
    with Some True show ?thesis
      by (simp add: off_def listeners_of_def Let_def splice1_indexOf)
  next
    case False
    then have "indexOf cbs cb = -1" by (simp add: indexOf_absent)
    with Some False show ?thesis
      by (simp add: off_def listeners_of_def Let_def remove1_idem)
  qed
qed

subsection \<open>What a listener does while it runs\<close>

lemma run_listener_call_fields [simp]:
  "effects (run_listener_call c st) = effects st"
  "fcmToken (run_listener_call c st) = fcmToken st"
  "storage (run_listener_call c st) = storage st"
  by (cases c; simp)+

lemma fold_run_listener_call_fields [simp]:
  "effects (fold run_listener_call cs st) = effects st"
  "fcmToken (fold run_listener_call cs st) = fcmToken st"
  "storage (fold run_listener_call cs st) = storage st"
  by (induction cs arbitrary: st) simp_all

lemma run_listener_call_keeps:
  assumes "\<forall>c. call \<noteq> CallOff event c"
  shows "\<exists>X. listeners_of (run_listener_call call st) event = listeners_of st event @ X"
proof (cases call)
  case (CallOn e c)
  then show ?thesis
    by (cases "e = event") (auto simp: listeners_of_on listeners_of_on_other)
next
  case (CallOff e c)
  with assms have "e \<noteq> event" by auto
  with CallOff show ?thesis by (simp add: listeners_of_off_other)
qed

lemma fold_run_listener_call_keeps:
  assumes "\<forall>c. CallOff event c \<notin> set cs"
  shows "\<exists>X. listeners_of (fold run_listener_call cs st) event = listeners_of st event @ X"
  using assms
proof (induction cs arbitrary: st)
  case Nil
  then show ?case by simp
next
  case (Cons call cs)
  from Cons.prems have "\<forall>c. call \<noteq> CallOff event c" by auto
  from run_listener_call_keeps [OF this, of st]
  obtain X where X: "listeners_of (run_listener_call call st) event = listeners_of st event @ X"
    by blast
  from Cons.prems have "\<forall>c. CallOff event c \<notin> set cs" by auto
  from Cons.IH [OF this, of "run_listener_call call st"]
  obtain Y where "listeners_of (fold run_listener_call cs (run_listener_call call st)) event =
      listeners_of (run_listener_call call st) event @ Y" by blast
  with X show ?case by simp
qed

text \<open>The effects of one listener call: the call, then the logged error if it threw.\<close>

lemma effects_call_listener:
  "\<exists>es. effects (call_listener env event d cb st) = effects st @ ListenerCalled event cb d # es
        \<and> listener_calls es = [] \<and> displayed es = [] \<and> timers es = []"
  by (simp add: call_listener_def Let_def split: sum.splits)

lemma call_listener_fields:
  "fcmToken (call_listener env event d cb st) = fcmToken st"
  "storage (call_listener env event d cb st) = storage st"
  by (simp_all add: call_listener_def Let_def split: sum.splits)

lemma call_listener_keeps:
  assumes "\<forall>st' c. CallOff event c \<notin> set (fst (listener_behaviour env cb d st'))"
  shows "\<exists>X. listeners_of (call_listener env event d cb st) event = listeners_of st event @ X"
proof -
  let ?st1 = "log_effect (ListenerCalled event cb d) st"
  from assms have "\<forall>c. CallOff event c \<notin> set (fst (listener_behaviour env cb d ?st1))" by blast
  from fold_run_listener_call_keeps [OF this, of ?st1]
  show ?thesis by (simp add: call_listener_def Let_def split: sum.splits)
qed

lemma call_listener_only_calls:
  "\<exists>es. effects (call_listener env event d cb st) = effects st @ es \<and> only_calls event d es"
proof -
  from effects_call_listener [of env event d cb st]
  obtain es where "effects (call_listener env event d cb st) =
      effects st @ ListenerCalled event cb d # es"
    and "listener_calls es = []" "displayed es = []" "timers es = []" by blast
  then have "effects (call_listener env event d cb st) = effects st @ (ListenerCalled event cb d # es)
      \<and> only_calls event d (ListenerCalled event cb d # es)"
    by (simp add: only_calls_def)
  then show ?thesis by blast
qed

subsection \<open>The loop of \<open>emit\<close>\<close>

lemma forEach_listener_fields:
  "fcmToken (forEach_listener env event d k len st) = fcmToken st
   \<and> storage (forEach_listener env event d k len st) = storage st"
proof (induction env event d k len st rule: forEach_listener.induct)
  case (1 env event d k len st)
  then show ?case
    by (subst (1 2) forEach_listener.simps) (simp add: call_listener_fields)
qed

lemma forEach_listener_only_calls:
  "\<exists>es. effects (forEach_listener env event d k len st) = effects st @ es \<and> only_calls event d es"
proof (induction env event d k len st rule: forEach_listener.induct)
  case (1 env event d k len st)
  show ?case
  proof (cases "k < len")
    case False
    then show ?thesis by (subst forEach_listener.simps) simp
  next
    case True
    show ?thesis
    proof (cases "k < length (listeners_of st event)")
      case False
      with True "1.IH"(2) show ?thesis by (subst forEach_listener.simps) simp
    next
      case inrange: True
      let ?st' = "call_listener env event d (listeners_of st event ! k) st"
      from call_listener_only_calls [of env event d "listeners_of st event ! k" st]
      obtain es1 where es1: "effects ?st' = effects st @ es1" "only_calls event d es1" by blast
      from "1.IH"(1) [OF True inrange]
      obtain es2 where es2: "effects (forEach_listener env event d (Suc k) len ?st') =
          effects ?st' @ es2" "only_calls event d es2" by blast
      from es1 es2 have "effects (forEach_listener env event d (Suc k) len ?st') =
          effects st @ (es1 @ es2) \<and> only_calls event d (es1 @ es2)"
        by (simp add: only_calls_append)
      with True inrange show ?thesis
        by (subst forEach_listener.simps) (simp only: if_True, blast)
    qed
  qed
qed

lemma forEach_listener_calls:
  "len = length L \<Longrightarrow> k \<le> len \<Longrightarrow> listeners_of st event = L @ X \<Longrightarrow>
   no_off_during env event d L \<Longrightarrow>
    listener_calls (effects (forEach_listener env event d k len st)) =
      listener_calls (effects st) @ map (\<lambda>cb. (event, cb, d)) (drop k L)"
proof (induction env event d k len st arbitrary: X rule: forEach_listener.induct)
  case (1 env event d k len st)
  show ?case
  proof (cases "k < len")
    case False
    with "1.prems" show ?thesis by (subst forEach_listener.simps) simp
  next
    case True
    with "1.prems" have inrange: "k < length (listeners_of st event)" by simp
    from True "1.prems" have kL: "k < length L" by simp
    then have nth: "listeners_of st event ! k = L ! k"
      using "1.prems"(3) by (simp add: nth_append)
    let ?st' = "call_listener env event d (L ! k) st"
    from kL have "L ! k \<in> set L" by simp
    with "1.prems"(4)
    have "\<forall>st' c. CallOff event c \<notin> set (fst (listener_behaviour env (L ! k) d st'))"
      by (auto simp: no_off_during_def)
    from call_listener_keeps [OF this, of st]
    obtain Y where Y: "listeners_of ?st' event = L @ (X @ Y)"
      using "1.prems"(3) by auto
    from effects_call_listener [of env event d "L ! k" st]
    obtain es where es: "effects ?st' = effects st @ ListenerCalled event (L ! k) d # es"
      "listener_calls es = []" by blast
    from True "1.prems" have "Suc k \<le> len" by simp
    from "1.IH"(1) [OF True inrange, unfolded nth, OF "1.prems"(1) this Y "1.prems"(4)]
    have "listener_calls (effects (forEach_listener env event d (Suc k) len ?st')) =
        listener_calls (effects ?st') @ map (\<lambda>cb. (event, cb, d)) (drop (Suc k) L)" .
    with es have "listener_calls (effects (forEach_listener env event d (Suc k) len ?st')) =
        listener_calls (effects st) @ (event, L ! k, d) # map (\<lambda>cb. (event, cb, d)) (drop (Suc k) L)"
      by simp
    also have "(event, L ! k, d) # map (\<lambda>cb. (event, cb, d)) (drop (Suc k) L) =
        map (\<lambda>cb. (event, cb, d)) (drop k L)"
      using kL by (simp add: Cons_nth_drop_Suc [symmetric])
    finally show ?thesis
      using True inrange nth by (subst forEach_listener.simps) simp
  qed
qed

subsection \<open>\<open>emit\<close>\<close>

lemma emit_only_calls:
  "\<exists>es. effects (emit env event d st) = effects st @ es \<and> only_calls event d es"
proof (cases "listeners st event")
  case None
  then show ?thesis by (simp add: emit_def)
next
  case (Some cbs)
  with forEach_listener_only_calls [of env event d 0 "length cbs" st]
  show ?thesis by (simp add: emit_def)
qed

lemma emit_fields:
  "fcmToken (emit env event d st) = fcmToken st"
  "storage (emit env event d st) = storage st"
  by (simp_all add: emit_def forEach_listener_fields split: option.splits)

lemma emit_forEach:
  "emit env event d st = forEach_listener env event d 0 (length (listeners_of st event)) st"
  by (cases "listeners st event")
     (simp_all add: emit_def listeners_of_def forEach_listener.simps [of _ _ _ 0 0])

lemma listener_calls_emit:
  assumes "no_off_during env event d (listeners_of st event)"
  shows "listener_calls (new_effects st (emit env event d st)) =
     map (\<lambda>cb. (event, cb, d)) (listeners_of st event)"
proof -
  from emit_only_calls [of env event d st]
  obtain es where es: "effects (emit env event d st) = effects st @ es" by blast
  from forEach_listener_calls [of "length (listeners_of st event)" "listeners_of st event"
      0 st event "[]" env d] assms
  have "listener_calls (effects (emit env event d st)) =
      listener_calls (effects st) @ map (\<lambda>cb. (event, cb, d)) (listeners_of st event)"
    by (simp add: emit_forEach)
  with es show ?thesis by simp
qed

lemma listener_calls_emit_first:
  assumes "listeners_of st event = cb # rest"
  shows "\<exists>cs. listener_calls (new_effects st (emit env event d st)) = (event, cb, d) # cs"
proof -
  let ?st' = "call_listener env event d cb st"
  from effects_call_listener [of env event d cb st]
  obtain es1 where es1: "effects ?st' = effects st @ ListenerCalled event cb d # es1" by blast
  from forEach_listener_only_calls [of env event d "Suc 0" "Suc (length rest)" ?st']
  obtain es2 where es2: "effects (forEach_listener env event d (Suc 0) (Suc (length rest)) ?st') =
      effects ?st' @ es2" by blast
  have "emit env event d st = forEach_listener env event d (Suc 0) (Suc (length rest)) ?st'"
    using assms by (simp add: emit_forEach forEach_listener.simps [of _ _ _ 0])
  with es1 es2 have "effects (emit env event d st) =
      effects st @ (ListenerCalled event cb d # es1 @ es2)" by simp
  then have "new_effects st (emit env event d st) = ListenerCalled event cb d # es1 @ es2"
    by (rule new_effects_append)
  then show ?thesis by simp
qed

lemma no_off_during_nominal [simp]: "no_off_during nominal_env event d cbs"
  by (simp add: no_off_during_def nominal_env_def)

lemma no_off_during_faulty [simp]: "no_off_during (faulty_env A) event d cbs"
  by (simp add: no_off_during_def faulty_env_def nominal_env_def)

subsection \<open>Display\<close>

lemma effects_showLocalNotification:
  "\<exists>es. effects (showLocalNotification env notification st) = effects st @ es
        \<and> displayed es = render_calls notification
        \<and> listener_calls es = [] \<and> timers es = []"
  by (simp add: showLocalNotification_def render_calls_def log_show_error_def Let_def
      split: sum.splits)

lemma displayed_showLocalNotification:
  "displayed (new_effects st (showLocalNotification env notification st)) =
     render_calls notification"
proof -
  from effects_showLocalNotification [of env notification st]
  obtain es where "effects (showLocalNotification env notification st) = effects st @ es"
    "displayed es = render_calls notification" by blast
  then show ?thesis by simp
qed

lemma showLocalNotification_fields:
  "listeners (showLocalNotification env notification st) = listeners st"
  "fcmToken (showLocalNotification env notification st) = fcmToken st"
  "storage (showLocalNotification env notification st) = storage st"
  by (simp_all add: showLocalNotification_def log_show_error_def Let_def split: sum.splits)

lemma listeners_of_showLocalNotification [simp]:
  "listeners_of (showLocalNotification env notification st) event = listeners_of st event"
  by (simp add: listeners_of_def showLocalNotification_fields)

subsection \<open>The coercion loop\<close>

lemma all_strings_Nil [simp]: "all_strings []"
  by (simp add: all_strings_def)

lemma set_update_subset: "set (AList.update k v al) \<subseteq> insert (k, v) (set al)"
  by (induction al) auto

lemma all_strings_set_string_prop:
  "all_strings acc \<Longrightarrow> all_strings (set_string_prop acc key s)"
  using set_update_subset [of key "JStr s" acc]
  by (auto simp: all_strings_def set_string_prop_def)

lemma all_strings_coerce_keys:
  "coerce_keys d keys acc = Inr sd \<Longrightarrow> all_strings acc \<Longrightarrow> all_strings sd"
  by (induction keys arbitrary: acc)
     (auto simp: all_strings_set_string_prop split: sum.splits)

lemma map_of_set_string_prop:
  "map_of (set_string_prop acc key s) k =
     (if k = key \<and> key \<noteq> ''__proto__'' then Some (JStr s) else map_of acc k)"
  by (simp add: set_string_prop_def update_conv')

lemma map_of_coerce_keys_other:
  "coerce_keys d keys acc = Inr sd \<Longrightarrow> k \<notin> set keys \<or> k = ''__proto__'' \<Longrightarrow>
     map_of sd k = map_of acc k"
  by (induction keys arbitrary: acc)
     (auto simp: map_of_set_string_prop split: sum.splits)

lemma map_of_coerce_keys:
  "coerce_keys d keys acc = Inr sd \<Longrightarrow> k \<in> set keys \<Longrightarrow> k \<noteq> ''__proto__'' \<Longrightarrow>
     \<exists>s. String_js (get_prop d k) = Inr s \<and> map_of sd k = Some (JStr s)"
proof (induction keys arbitrary: acc)
  case Nil
  then show ?case by simp
next
  case (Cons key keys)
  from Cons.prems(1) obtain s where s: "String_js (get_prop d key) = Inr s"
    and rest: "coerce_keys d keys (set_string_prop acc key s) = Inr sd"
    by (auto split: sum.splits)
  show ?case
  proof (cases "k \<in> set keys")
    case True
    from Cons.IH [OF rest True Cons.prems(3)] show ?thesis .
  next
    case False
    with Cons.prems(2) have "k = key" by simp
    with False rest s Cons.prems(3) show ?thesis
      using map_of_coerce_keys_other [OF rest, of k]
      by (simp add: map_of_set_string_prop)
  qed
qed

lemma coerce_keys_succeeds_iff:
  "(\<exists>sd. coerce_keys d keys acc = Inr sd) \<longleftrightarrow>
     (\<forall>key \<in> set keys. \<exists>s. String_js (get_prop d key) = Inr s)"
proof (induction keys arbitrary: acc)
  case Nil
  show ?case by simp
next
  case (Cons key keys)
  show ?case
  proof (cases "String_js (get_prop d key)")
    case (Inl e)
    then show ?thesis by auto
  next
    case (Inr s)
    with Cons.IH [of "set_string_prop acc key s"] show ?thesis by simp
  qed
qed

lemma stringData_of_succeeds_iff: "(\<exists>sd. stringData_of d = Inr sd) \<longleftrightarrow> printable d"
  by (simp add: stringData_of_def printable_def coerce_keys_succeeds_iff)

lemma render_calls_printable:
  "printable_request notification \<longleftrightarrow> (\<exists>p. render_calls notification = [p])"
proof (cases "req_data notification")
  case None
  then show ?thesis
    by (simp add: printable_request_def render_calls_def display_payload_of_def)
next
  case (Some d)
  show ?thesis
  proof (cases "stringData_of d")
    case (Inl e)
    with stringData_of_succeeds_iff [of d] have "\<not> printable d" by auto
    with Inl Some show ?thesis
      by (simp add: printable_request_def render_calls_def display_payload_of_def)
  next
    case (Inr sd)
    with stringData_of_succeeds_iff [of d] have "printable d" by auto
    with Inr Some show ?thesis
      by (simp add: printable_request_def render_calls_def display_payload_of_def)
  qed
qed

lemma render_calls_not_printable:
  "\<not> printable_request notification \<longleftrightarrow> render_calls notification = []"
  using render_calls_printable [of notification]
  by (auto simp: render_calls_def split: sum.splits)

lemma render_calls_data:
  assumes "p \<in> set (render_calls notification)"
  shows "payload_title p = req_title notification \<and> payload_body p = req_body notification
     \<and> (case req_data notification of None \<Rightarrow> payload_data p = []
        | Some d \<Rightarrow> stringData_of d = Inr (payload_data p))"
  using assms
  by (auto simp: render_calls_def display_payload_of_def split: sum.splits option.splits)

subsection \<open>The message handlers\<close>

lemma effects_AsyncStorage_setItem [simp]:
  "effects (snd (AsyncStorage_setItem env key v st)) = effects st"
  by (simp add: AsyncStorage_setItem_def split: sum.splits)

lemma snd_foregroundMessageHandler:
  "snd (foregroundMessageHandler env msg st) =
     (if opt_prop (msg_data msg) ''type'' = JStr ''ride_request''
      then emit env ''rideRequest'' (JObj (case msg_data msg of Some d \<Rightarrow> d | None \<Rightarrow> []))
             (showLocalNotification env (foreground_request msg) st)
      else showLocalNotification env (foreground_request msg) st)"
  by (simp add: foregroundMessageHandler_def Let_def opt_prop_def split: option.splits)

lemma foregroundMessageHandler_resolves: "fst (foregroundMessageHandler env msg st) = Inr ()"
  by (simp add: foregroundMessageHandler_def Let_def split: option.splits)

lemma foregroundMessageHandler_other:
  assumes "opt_prop (msg_data msg) ''type'' \<noteq> JStr ''ride_request''"
  shows "listener_calls (new_effects st (snd (foregroundMessageHandler env msg st))) = []"
    and "timers (new_effects st (snd (foregroundMessageHandler env msg st))) = []"
    and "displayed (new_effects st (snd (foregroundMessageHandler env msg st))) =
          render_calls (foreground_request msg)"
proof -
  from effects_showLocalNotification [of env "foreground_request msg" st]
  obtain es where es: "effects (showLocalNotification env (foreground_request msg) st) =
      effects st @ es" "displayed es = render_calls (foreground_request msg)"
      "listener_calls es = []" "timers es = []" by blast
  from assms es(1)
  have "new_effects st (snd (foregroundMessageHandler env msg st)) = es"
    by (simp add: snd_foregroundMessageHandler)
  with es show "listener_calls (new_effects st (snd (foregroundMessageHandler env msg st))) = []"
    and "timers (new_effects st (snd (foregroundMessageHandler env msg st))) = []"
    and "displayed (new_effects st (snd (foregroundMessageHandler env msg st))) =
          render_calls (foreground_request msg)"
    by simp_all
qed

lemma foregroundMessageHandler_ride_request:
  assumes "msg_data msg = Some d" and "get_prop d ''type'' = JStr ''ride_request''"
  shows "listener_calls (new_effects st (snd (foregroundMessageHandler env msg st))) =
      listener_calls (new_effects (showLocalNotification env (foreground_request msg) st)
        (emit env ''rideRequest'' (JObj d) (showLocalNotification env (foreground_request msg) st)))"
    and "only_calls ''rideRequest'' (JObj d)
      (new_effects (showLocalNotification env (foreground_request msg) st)
        (emit env ''rideRequest'' (JObj d) (showLocalNotification env (foreground_request msg) st)))"
    and "timers (new_effects st (snd (foregroundMessageHandler env msg st))) = []"
    and "displayed (new_effects st (snd (foregroundMessageHandler env msg st))) =
          render_calls (foreground_request msg)"
proof -
  let ?st1 = "showLocalNotification env (foreground_request msg) st"
  let ?st2 = "emit env ''rideRequest'' (JObj d) ?st1"
  from effects_showLocalNotification [of env "foreground_request msg" st]
  obtain es1 where es1: "effects ?st1 = effects st @ es1"
      "displayed es1 = render_calls (foreground_request msg)"
      "listener_calls es1 = []" "timers es1 = []" by blast
  from emit_only_calls [of env "''rideRequest''" "JObj d" ?st1]
  obtain es2 where es2: "effects ?st2 = effects ?st1 @ es2"
      "only_calls ''rideRequest'' (JObj d) es2" by blast
  from assms have run: "snd (foregroundMessageHandler env msg st) = ?st2"
    by (simp add: snd_foregroundMessageHandler opt_prop_def)
  from es1(1) es2(1) have all: "new_effects st ?st2 = es1 @ es2" by simp
  from es2(1) have new2: "new_effects ?st1 ?st2 = es2" by simp
  from es1 es2 all new2 run
  show "listener_calls (new_effects st (snd (foregroundMessageHandler env msg st))) =
      listener_calls (new_effects ?st1 ?st2)"
    and "only_calls ''rideRequest'' (JObj d) (new_effects ?st1 ?st2)"
    and "timers (new_effects st (snd (foregroundMessageHandler env msg st))) = []"
    and "displayed (new_effects st (snd (foregroundMessageHandler env msg st))) =
          render_calls (foreground_request msg)"
    by (simp_all add: only_calls_def)
qed

lemma snd_backgroundMessageHandler_effects:
  "effects (snd (backgroundMessageHandler env msg st)) =
     effects (showLocalNotification env (background_request msg) st)"
  by (simp add: backgroundMessageHandler_def Let_def split: option.splits)

lemma displayed_backgroundMessageHandler:
  "displayed (new_effects st (snd (backgroundMessageHandler env msg st))) =
     render_calls (background_request msg)"
proof -
  from effects_showLocalNotification [of env "background_request msg" st]
  obtain es where "effects (showLocalNotification env (background_request msg) st) =
      effects st @ es" "displayed es = render_calls (background_request msg)" by blast
  then show ?thesis by (simp add: snd_backgroundMessageHandler_effects)
qed

lemma backgroundMessageHandler_ride_request:
  assumes "msg_data msg = Some d" "get_prop d ''type'' = JStr ''ride_request''"
    and "JSON_stringify (JObj d) = Some s"
  shows "backgroundMessageHandler env msg st =
     AsyncStorage_setItem env ''pendingRideRequest'' s
       (showLocalNotification env (background_request msg) st)"
  using assms by (simp add: backgroundMessageHandler_def Let_def)

lemma request_data [simp]:
  "req_data (foreground_request msg) = msg_data msg"
  "req_data (background_request msg) = msg_data msg"
  by (simp_all add: foreground_request_def background_request_def)

lemma printable_request_handlers:
  "printable_request (foreground_request msg) = printable_request (background_request msg)"
  by (simp add: printable_request_def)

subsection \<open>The samples\<close>

lemma listeners_of_initial_state [simp]: "listeners_of initial_state event = []"
  by (simp add: listeners_of_def initial_state_def)

lemma listeners_of_two_listeners_state:
  "listeners_of two_listeners_state ''rideRequest'' = [1, 2]"
  by (simp add: two_listeners_state_def listeners_of_on)

lemma listeners_of_twice_registered_state:
  "listeners_of twice_registered_state ''rideRequest'' = [1, 1]"
  by (simp add: twice_registered_state_def listeners_of_on)

lemma stringData_of_flag_data:
  "stringData_of flag_data =
     Inr [(''test'', JStr ''true''), (''count'', JStr ''1152921504606847000''),
          (''rate'', JStr ''1.5''), (''nested'', JStr ''[object Object]'')]"
  by (simp add: stringData_of_def flag_data_def Object_keys_def set_string_prop_def get_prop_def)

lemma stringData_of_opaque_data: "stringData_of opaque_data = Inl TypeError_to_primitive"
  by (simp add: stringData_of_def opaque_data_def Object_keys_def set_string_prop_def get_prop_def)

lemma stringData_of_fare_data:
  "stringData_of fare_data = Inr [(''type'', JStr ''ride_request''), (''fare'', JStr ''120'')]"
  by (simp add: stringData_of_def fare_data_def Object_keys_def set_string_prop_def get_prop_def)

lemma stringData_of_ride_data:
  "stringData_of ride_data = Inr [(''type'', JStr ''ride_request''), (''rideId'', JStr ''7'')]"
  by (simp add: stringData_of_def ride_data_def Object_keys_def set_string_prop_def get_prop_def)

lemma printable_samples:
  "printable flag_data" "\<not> printable opaque_data" "printable fare_data" "printable ride_data"
  using stringData_of_succeeds_iff [of flag_data] stringData_of_succeeds_iff [of opaque_data]
    stringData_of_succeeds_iff [of fare_data] stringData_of_succeeds_iff [of ride_data]
  by (simp_all add: stringData_of_flag_data stringData_of_opaque_data stringData_of_fare_data
      stringData_of_ride_data)

lemma JSON_stringify_ride_data:
  "JSON_stringify (JObj ride_data) = Some ''{\"type\":\"ride_request\",\"rideId\":\"7\"}''"
  by (simp add: ride_data_def json_quote_def json_escape_char_def)

lemma count_list_remove1:
  "count_list (remove1 x xs) x = count_list xs x - 1"
  by (induction xs) auto

lemma not_in_remove1_once:
  assumes "count_list xs x \<le> 1"
  shows "x \<notin> set (remove1 x xs)"
proof -
  from assms have "count_list (remove1 x xs) x = 0" by (simp add: count_list_remove1)
  then show ?thesis by (metis count_list_0_iff)
qed

lemma foregroundMessageHandler_quiet:
  "timers (new_effects st (snd (foregroundMessageHandler env msg st))) = []"
  "displayed (new_effects st (snd (foregroundMessageHandler env msg st))) =
     render_calls (foreground_request msg)"
proof -
  show "timers (new_effects st (snd (foregroundMessageHandler env msg st))) = []"
  proof (cases "opt_prop (msg_data msg) ''type'' = JStr ''ride_request''")
    case False
    then show ?thesis by (rule foregroundMessageHandler_other)
  next
    case True
    then obtain d' where "msg_data msg = Some d'" "get_prop d' ''type'' = JStr ''ride_request''"
      by (auto simp: opt_prop_def split: option.splits)
    then show ?thesis by (rule foregroundMessageHandler_ride_request)
  qed
  show "displayed (new_effects st (snd (foregroundMessageHandler env msg st))) =
     render_calls (foreground_request msg)"
  proof (cases "opt_prop (msg_data msg) ''type'' = JStr ''ride_request''")
    case False
    then show ?thesis by (rule foregroundMessageHandler_other)
  next
    case True
    then obtain d' where "msg_data msg = Some d'" "get_prop d' ''type'' = JStr ''ride_request''"
      by (auto simp: opt_prop_def split: option.splits)
    then show ?thesis by (rule foregroundMessageHandler_ride_request)
  qed
qed

lemma update_token_on_server_fields:
  "fcmToken (snd (update_token_on_server env newToken st)) = fcmToken st"
  "storage (snd (update_token_on_server env newToken st)) = storage st"
  by (simp_all add: update_token_on_server_def AsyncStorage_getItem_def Let_def
      split: sum.splits option.splits)

lemma tokenRefreshHandler_fields:
  "fcmToken (snd (tokenRefreshHandler env newToken st)) = fcmToken st"
  "storage (snd (tokenRefreshHandler env newToken st)) = storage st"
proof -
  obtain r st' where u: "update_token_on_server env newToken st = (r, st')"
    by (cases "update_token_on_server env newToken st")
  from update_token_on_server_fields [of env newToken st] u
  have "fcmToken st' = fcmToken st" "storage st' = storage st" by simp_all
  then show "fcmToken (snd (tokenRefreshHandler env newToken st)) = fcmToken st"
    and "storage (snd (tokenRefreshHandler env newToken st)) = storage st"
    by (simp_all add: tokenRefreshHandler_def u emit_fields split: sum.splits)
qed

lemma token_cached_state_token:
  "fcmToken token_cached_state = Some ''token-1''"
  "storage token_cached_state ''fcmToken'' = Some ''token-1''"
  by (simp_all add: token_cached_state_def getFCMToken_def nominal_env_def
      AsyncStorage_setItem_def initial_state_def)

lemma effects_checkPendingNotifications:
  "effects (checkPendingNotifications env st) =
     effects st @
     (case getInitialNotification env of
        Inl e \<Rightarrow> [ConsoleError ''Error checking pending notifications'' e]
      | Inr initialNotification \<Rightarrow>
          (case initialNotification of
             Some (Some d) \<Rightarrow>
               if get_prop d ''type'' = JStr ''ride_request''
               then [SetTimeout 3000 ''rideRequest'' (JObj d)] else []
           | _ \<Rightarrow> []) @
          (case onForegroundEvent env of
             Inr _ \<Rightarrow> []
           | Inl e \<Rightarrow> [ConsoleError ''Error checking pending notifications'' e]))"
  by (simp add: checkPendingNotifications_def Let_def split: sum.splits option.splits)

section \<open>The event emitter\<close>




text \<open>
  Claim C8, as stated, fails: \<open>off\<close> removes one registration only. A callback registered
  twice is still called once by an \<open>emit\<close> that follows a single \<open>off\<close>.
\<close>

theorem off_removes_one_registration_counterexample:
  "listener_calls (new_effects (off ''rideRequest'' 1 twice_registered_state)
      (emit nominal_env ''rideRequest'' (JObj ride_data)
         (off ''rideRequest'' 1 twice_registered_state))) =
     [(''rideRequest'', 1, JObj ride_data)]"
  by (simp add: listener_calls_emit listeners_of_off listeners_of_twice_registered_state)

text \<open>
  Claim C8, amended. \<open>off event cb\<close> removes the first registration of \<open>cb\<close> for the event
  and leaves the other listeners in their order, so \<open>cb\<close> is registered one time fewer.
  A following \<open>emit\<close>, during which no listener calls \<open>off\<close> for the event, calls the
  listeners that are left: it does not call \<open>cb\<close> when \<open>cb\<close> had been registered at most
  once; registered \<open>n > 1\<close> times, \<open>cb\<close> is still called \<open>n - 1\<close> times.
\<close>

theorem off_removes_first_registration:
  "listeners_of (off event cb st) event = remove1 cb (listeners_of st event)
   \<and> count_list (listeners_of (off event cb st) event) cb = count_list (listeners_of st event) cb - 1
   \<and> (no_off_during env event d (listeners_of (off event cb st) event) \<longrightarrow>
        listener_calls (new_effects (off event cb st) (emit env event d (off event cb st))) =
          map (\<lambda>c. (event, c, d)) (remove1 cb (listeners_of st event))
        \<and> (count_list (listeners_of st event) cb \<le> 1 \<longrightarrow>
            (event, cb, d) \<notin> set (listener_calls
               (new_effects (off event cb st) (emit env event d (off event cb st))))))"
proof -
  have calls: "listener_calls (new_effects (off event cb st) (emit env event d (off event cb st))) =
      map (\<lambda>c. (event, c, d)) (remove1 cb (listeners_of st event))"
    if "no_off_during env event d (listeners_of (off event cb st) event)"
    using listener_calls_emit [OF that] by (simp add: listeners_of_off)
  have gone: "count_list (listeners_of st event) cb \<le> 1 \<Longrightarrow>
      (event, cb, d) \<notin> set (map (\<lambda>c. (event, c, d)) (remove1 cb (listeners_of st event)))"
    using not_in_remove1_once [of "listeners_of st event" cb] by auto
  from calls gone show ?thesis
    by (simp add: listeners_of_off count_list_remove1)
qed

theorem off_removes_first_registration_witness:
  "no_off_during nominal_env ''rideRequest'' (JObj ride_data)
      (listeners_of (off ''rideRequest'' 1 two_listeners_state) ''rideRequest'')
   \<and> count_list (listeners_of two_listeners_state ''rideRequest'') 1 \<le> 1
   \<and> (''rideRequest'', 1, JObj ride_data) \<notin> set (listener_calls
        (new_effects (off ''rideRequest'' 1 two_listeners_state)
           (emit nominal_env ''rideRequest'' (JObj ride_data)
              (off ''rideRequest'' 1 two_listeners_state))))
   \<and> listener_calls
        (new_effects (off ''rideRequest'' 1 two_listeners_state)
           (emit nominal_env ''rideRequest'' (JObj ride_data)
              (off ''rideRequest'' 1 two_listeners_state))) = [(''rideRequest'', 2, JObj ride_data)]"
  using off_removes_first_registration
    [of "''rideRequest''" 1 two_listeners_state nominal_env "JObj ride_data"]
  by (simp add: listeners_of_two_listeners_state)

section \<open>Display\<close>

text \<open>
  Claim C3. For every request \<open>{title, body, data}\<close> passed to \<open>showLocalNotification\<close>,
  any payload handed to the renderer has only strings as values of its data: the value
  under a key is \<^verbatim>\<open>String\<close> of the request's value under that key, for numbers, booleans
  and nested objects alike (\<^verbatim>\<open>{test: true}\<close> becomes \<^verbatim>\<open>{test: "true"}\<close>), and the payload has
  no other keys. The one key that does not arrive is \<^verbatim>\<open>__proto__\<close>, which an assignment
  cannot create on an object literal. One render call is made when \<^verbatim>\<open>String\<close> succeeds on
  every value; when it throws on one (an object with an own \<^verbatim>\<open>toString\<close> property that is
  not a function), the coercion ends in the \<^verbatim>\<open>catch\<close> and no render call is made, so no
  payload with a non-string value reaches the renderer.
\<close>

theorem showLocalNotification_coerces_data:
  "(printable_request notification \<longrightarrow>
      (\<exists>p. displayed (new_effects st (showLocalNotification env notification st)) = [p]))
   \<and> (\<not> printable_request notification \<longrightarrow>
      displayed (new_effects st (showLocalNotification env notification st)) = [])
   \<and> (p \<in> set (displayed (new_effects st (showLocalNotification env notification st))) \<longrightarrow>
        all_strings (payload_data p)
        \<and> (req_data notification = Some d \<and> map_of d key = Some v \<and> key \<noteq> ''__proto__'' \<longrightarrow>
             (\<exists>s. String_js v = Inr s \<and> map_of (payload_data p) key = Some (JStr s)))
        \<and> (req_data notification = Some d \<and> (map_of d key = None \<or> key = ''__proto__'') \<longrightarrow>
             map_of (payload_data p) key = None))"
proof -
  let ?shown = "displayed (new_effects st (showLocalNotification env notification st))"
  have shown: "?shown = render_calls notification"
    by (rule displayed_showLocalNotification)
  have one: "printable_request notification \<Longrightarrow> \<exists>p. ?shown = [p]"
    using render_calls_printable [of notification] by (simp add: shown)
  have none: "\<not> printable_request notification \<Longrightarrow> ?shown = []"
    using render_calls_not_printable [of notification] by (simp add: shown)
  have strs: "all_strings (payload_data p)" if "p \<in> set ?shown"
  proof (cases "req_data notification")
    case None
    with render_calls_data [of p notification] that show ?thesis by (simp add: shown)
  next
    case (Some d')
    with render_calls_data [of p notification] that
    have "coerce_keys d' (Object_keys d') [] = Inr (payload_data p)"
      by (simp add: shown stringData_of_def)
    from all_strings_coerce_keys [OF this] show ?thesis by simp
  qed
  have sd: "coerce_keys d (Object_keys d) [] = Inr (payload_data p)"
    if "p \<in> set ?shown" "req_data notification = Some d"
    using render_calls_data [of p notification] that by (simp add: shown stringData_of_def)
  have vals: "\<exists>s. String_js v = Inr s \<and> map_of (payload_data p) key = Some (JStr s)"
    if "p \<in> set ?shown" "req_data notification = Some d" "map_of d key = Some v"
      "key \<noteq> ''__proto__''"
  proof -
    from that(3) have "key \<in> set (Object_keys d)"
      by (metis Object_keys_def map_of_eq_None_iff option.distinct(1) set_map)
    from map_of_coerce_keys [OF sd [OF that(1,2)] this that(4)] that(3)
    show ?thesis by (simp add: get_prop_def)
  qed
  have absent: "map_of (payload_data p) key = None"
    if "p \<in> set ?shown" "req_data notification = Some d"
      "map_of d key = None \<or> key = ''__proto__''"
  proof -
    from that(3) have "key \<notin> set (Object_keys d) \<or> key = ''__proto__''"
      by (auto simp: Object_keys_def map_of_eq_None_iff)
    from map_of_coerce_keys_other [OF sd [OF that(1,2)] this] show ?thesis by simp
  qed
  show ?thesis
  proof (intro conjI impI)
    assume "printable_request notification"
    then show "\<exists>p. ?shown = [p]" by (rule one)
  next
    assume "\<not> printable_request notification"
    then show "?shown = []" by (rule none)
  next
    assume "p \<in> set ?shown"
    then show "all_strings (payload_data p)" by (rule strs)
  next
    assume a: "p \<in> set ?shown"
      and b: "req_data notification = Some d \<and> map_of d key = Some v \<and> key \<noteq> ''__proto__''"
    from b have "req_data notification = Some d" "map_of d key = Some v" "key \<noteq> ''__proto__''"
      by simp_all
    from vals [OF a this]
    show "\<exists>s. String_js v = Inr s \<and> map_of (payload_data p) key = Some (JStr s)" .
  next
    assume a: "p \<in> set ?shown"
      and b: "req_data notification = Some d \<and> (map_of d key = None \<or> key = ''__proto__'')"
    from b have "req_data notification = Some d" "map_of d key = None \<or> key = ''__proto__''"
      by simp_all
    from absent [OF a this] show "map_of (payload_data p) key = None" .
  qed
qed

theorem showLocalNotification_coerces_data_witness:
  "printable_request flag_request
   \<and> displayed (new_effects initial_state
        (showLocalNotification nominal_env flag_request initial_state)) = [flag_payload]
   \<and> flag_payload \<in> set (displayed (new_effects initial_state
        (showLocalNotification nominal_env flag_request initial_state)))
   \<and> all_strings (payload_data flag_payload)
   \<and> req_data flag_request = Some flag_data
   \<and> map_of flag_data ''test'' = Some (JBool True) \<and> ''test'' \<noteq> ''__proto__''
   \<and> map_of (payload_data flag_payload) ''test'' = Some (JStr ''true'')
   \<and> map_of flag_data ''other'' = None
   \<and> map_of (payload_data flag_payload) ''other'' = None
   \<and> \<not> printable_request opaque_request
   \<and> displayed (new_effects initial_state
        (showLocalNotification nominal_env opaque_request initial_state)) = []"
proof -
  have shown: "displayed (new_effects initial_state
        (showLocalNotification nominal_env flag_request initial_state)) = [flag_payload]"
    by (simp add: displayed_showLocalNotification render_calls_def display_payload_of_def
        flag_request_def flag_payload_def stringData_of_flag_data)
  have pr: "printable_request flag_request" "\<not> printable_request opaque_request"
    by (simp_all add: printable_request_def flag_request_def opaque_request_def printable_samples)
  have d: "req_data flag_request = Some flag_data"
    by (simp add: flag_request_def)
  have k: "map_of flag_data ''test'' = Some (JBool True)" "map_of flag_data ''other'' = None"
    by (simp_all add: flag_data_def)
  from showLocalNotification_coerces_data
         [of flag_request initial_state nominal_env flag_payload flag_data "''test''" "JBool True"]
       showLocalNotification_coerces_data
         [of flag_request initial_state nominal_env flag_payload flag_data "''other''" "JBool True"]
       showLocalNotification_coerces_data [of opaque_request initial_state nominal_env]
       shown pr d k
  show ?thesis by simp
qed

section \<open>The foreground handler\<close>

text \<open>
  Claim C2. For every message, the foreground handler resolves. When \<^verbatim>\<open>data.type\<close> is not
  the string \<^verbatim>\<open>ride_request\<close> (or there is no data) it calls no listener. When it is, it
  emits \<open>rideRequest\<close> with the message's own data object, not the string-coerced copy
  that goes to the renderer: every listener call it makes is a \<open>rideRequest\<close> call with
  that object, the first registered \<open>rideRequest\<close> listener is called first, and when no
  listener calls \<open>off\<close> for \<open>rideRequest\<close> during the emit, each registered listener is
  called, in order. The calls are made by the handler itself, before it resolves: it
  sets no timer. Its render calls are those of \<open>showLocalNotification\<close> on its request.
\<close>

theorem foregroundMessageHandler_emits_ride_request:
  "fst (foregroundMessageHandler env msg st) = Inr ()
   \<and> (opt_prop (msg_data msg) ''type'' \<noteq> JStr ''ride_request'' \<longrightarrow>
        listener_calls (new_effects st (snd (foregroundMessageHandler env msg st))) = [])
   \<and> (msg_data msg = Some d \<and> get_prop d ''type'' = JStr ''ride_request'' \<longrightarrow>
        (\<forall>c \<in> set (listener_calls (new_effects st (snd (foregroundMessageHandler env msg st)))).
            fst c = ''rideRequest'' \<and> snd (snd c) = JObj d)
        \<and> (listeners_of st ''rideRequest'' = cb # rest \<longrightarrow>
            (\<exists>cs. listener_calls (new_effects st (snd (foregroundMessageHandler env msg st))) =
               (''rideRequest'', cb, JObj d) # cs))
        \<and> (no_off_during env ''rideRequest'' (JObj d) (listeners_of st ''rideRequest'') \<longrightarrow>
            listener_calls (new_effects st (snd (foregroundMessageHandler env msg st))) =
              map (\<lambda>cb. (''rideRequest'', cb, JObj d)) (listeners_of st ''rideRequest'')))
   \<and> timers (new_effects st (snd (foregroundMessageHandler env msg st))) = []
   \<and> displayed (new_effects st (snd (foregroundMessageHandler env msg st))) =
        render_calls (foreground_request msg)"
proof -
  let ?st' = "snd (foregroundMessageHandler env msg st)"
  let ?st1 = "showLocalNotification env (foreground_request msg) st"
  have ride: "(\<forall>c \<in> set (listener_calls (new_effects st ?st')).
            fst c = ''rideRequest'' \<and> snd (snd c) = JObj d)
        \<and> (listeners_of st ''rideRequest'' = cb # rest \<longrightarrow>
            (\<exists>cs. listener_calls (new_effects st ?st') = (''rideRequest'', cb, JObj d) # cs))
        \<and> (no_off_during env ''rideRequest'' (JObj d) (listeners_of st ''rideRequest'') \<longrightarrow>
            listener_calls (new_effects st ?st') =
              map (\<lambda>cb. (''rideRequest'', cb, JObj d)) (listeners_of st ''rideRequest''))"
    if d: "msg_data msg = Some d" and ty: "get_prop d ''type'' = JStr ''ride_request''"
  proof -
    note r = foregroundMessageHandler_ride_request [OF d ty, where env = env and st = st]
    have a: "\<forall>c \<in> set (listener_calls (new_effects st ?st')).
        fst c = ''rideRequest'' \<and> snd (snd c) = JObj d"
      using r(2) by (simp add: r(1) only_calls_def)
    have b: "\<exists>cs. listener_calls (new_effects st ?st') = (''rideRequest'', cb, JObj d) # cs"
      if "listeners_of st ''rideRequest'' = cb # rest"
      using listener_calls_emit_first [of ?st1 "''rideRequest''" cb rest env "JObj d"] that
      by (simp add: r(1))
    have c: "listener_calls (new_effects st ?st') =
        map (\<lambda>cb. (''rideRequest'', cb, JObj d)) (listeners_of st ''rideRequest'')"
      if "no_off_during env ''rideRequest'' (JObj d) (listeners_of st ''rideRequest'')"
      using listener_calls_emit [of env "''rideRequest''" "JObj d" ?st1] that
      by (simp add: r(1))
    from a b c show ?thesis by blast
  qed
  have tm: "timers (new_effects st ?st') = []"
    by (rule foregroundMessageHandler_quiet)
  have dp: "displayed (new_effects st ?st') = render_calls (foreground_request msg)"
    by (rule foregroundMessageHandler_quiet)
  show ?thesis
  proof (intro conjI impI)
    show "fst (foregroundMessageHandler env msg st) = Inr ()"
      by (rule foregroundMessageHandler_resolves)
  next
    assume "opt_prop (msg_data msg) ''type'' \<noteq> JStr ''ride_request''"
    then show "listener_calls (new_effects st ?st') = []"
      by (rule foregroundMessageHandler_other)
  next
    assume "msg_data msg = Some d \<and> get_prop d ''type'' = JStr ''ride_request''"
    then show "\<forall>c \<in> set (listener_calls (new_effects st ?st')).
        fst c = ''rideRequest'' \<and> snd (snd c) = JObj d"
      using ride by blast
  next
    assume "msg_data msg = Some d \<and> get_prop d ''type'' = JStr ''ride_request''"
      and "listeners_of st ''rideRequest'' = cb # rest"
    then show "\<exists>cs. listener_calls (new_effects st ?st') = (''rideRequest'', cb, JObj d) # cs"
      using ride by blast
  next
    assume "msg_data msg = Some d \<and> get_prop d ''type'' = JStr ''ride_request''"
      and "no_off_during env ''rideRequest'' (JObj d) (listeners_of st ''rideRequest'')"
    then show "listener_calls (new_effects st ?st') =
        map (\<lambda>cb. (''rideRequest'', cb, JObj d)) (listeners_of st ''rideRequest'')"
      using ride by blast
  next
    show "timers (new_effects st ?st') = []" by (rule tm)
  next
    show "displayed (new_effects st ?st') = render_calls (foreground_request msg)" by (rule dp)
  qed
qed

theorem foregroundMessageHandler_emits_ride_request_witness:
  "msg_data fare_message = Some fare_data \<and> get_prop fare_data ''type'' = JStr ''ride_request''
   \<and> listeners_of two_listeners_state ''rideRequest'' = 1 # [2]
   \<and> no_off_during nominal_env ''rideRequest'' (JObj fare_data)
        (listeners_of two_listeners_state ''rideRequest'')
   \<and> listener_calls (new_effects two_listeners_state
         (snd (foregroundMessageHandler nominal_env fare_message two_listeners_state))) =
       [(''rideRequest'', 1, JObj [(''type'', JStr ''ride_request''), (''fare'', JNum ''120'')]),
        (''rideRequest'', 2, JObj [(''type'', JStr ''ride_request''), (''fare'', JNum ''120'')])]
   \<and> map payload_data (displayed (new_effects two_listeners_state
         (snd (foregroundMessageHandler nominal_env fare_message two_listeners_state)))) =
       [[(''type'', JStr ''ride_request''), (''fare'', JStr ''120'')]]
   \<and> opt_prop (msg_data promo_message) ''type'' \<noteq> JStr ''ride_request''
   \<and> listener_calls (new_effects two_listeners_state
         (snd (foregroundMessageHandler nominal_env promo_message two_listeners_state))) = []"
proof -
  have h1: "msg_data fare_message = Some fare_data" by (simp add: fare_message_def)
  have h2: "get_prop fare_data ''type'' = JStr ''ride_request''"
    by (simp add: fare_data_def get_prop_def)
  have h3: "opt_prop (msg_data promo_message) ''type'' \<noteq> JStr ''ride_request''"
    by (simp add: promo_message_def opt_prop_def get_prop_def)
  have h4: "render_calls (foreground_request fare_message) =
      [\<lparr> payload_title = JStr default_title, payload_body = JStr default_body,
         payload_data = [(''type'', JStr ''ride_request''), (''fare'', JStr ''120'')],
         payload_android = androidConfig, payload_ios = iosConfig \<rparr>]"
    by (simp add: render_calls_def display_payload_of_def h1 stringData_of_fare_data
        foreground_request_def fare_message_def notification_title_def notification_body_def
        js_or_def)
  from foregroundMessageHandler_emits_ride_request
          [of nominal_env fare_message two_listeners_state fare_data 1 "[2]"]
        foregroundMessageHandler_emits_ride_request
          [of nominal_env promo_message two_listeners_state fare_data 1 "[2]"]
        h1 h2 h3
  show ?thesis
    by (simp add: listeners_of_two_listeners_state h4) (simp add: fare_data_def)
qed

section \<open>The background handler\<close>

text \<open>
  Claim C4, as stated, fails: the two handlers do not build the same request from the same
  message. The foreground handler reads the title from \<^verbatim>\<open>notification.title\<close>, the
  background handler from \<^verbatim>\<open>data.title\<close>; a ride request with a notification title and no
  title in its data is shown with that title in the foreground and with the default title
  in the background.
\<close>

theorem handlers_build_different_requests_counterexample:
  "req_title (foreground_request titled_message) = JStr ''Pickup at the airport''
   \<and> req_title (background_request titled_message) = JStr default_title
   \<and> foreground_request titled_message \<noteq> background_request titled_message"
proof -
  have fg: "req_title (foreground_request titled_message) = JStr ''Pickup at the airport''"
    by (simp add: foreground_request_def titled_message_def notification_title_def
        opt_string_def js_or_def)
  have bg: "req_title (background_request titled_message) = JStr default_title"
    by (simp add: background_request_def titled_message_def opt_prop_def get_prop_def
        ride_data_def js_or_def)
  have "JStr ''Pickup at the airport'' \<noteq> JStr default_title"
    by (simp add: default_title_def)
  with fg bg show ?thesis by metis
qed

text \<open>
  Claim C4, amended. For every message, the render calls of each handler are those that
  \<open>showLocalNotification\<close> makes on the handler's request: one, or none when \<^verbatim>\<open>String\<close>
  throws on a value of the data, and as many for one handler as for the other. Both
  requests carry the message's data and fall back to the same default texts; the
  foreground handler takes title and body from \<^verbatim>\<open>notification.title\<close> and
  \<^verbatim>\<open>notification.body\<close>, the background handler from \<^verbatim>\<open>data.title\<close> and \<^verbatim>\<open>data.body\<close>. The two
  requests are the same when the message has no title and body in either place: both
  then carry the default texts.
\<close>

theorem handlers_render_alike:
  "displayed (new_effects st (snd (foregroundMessageHandler env msg st))) =
      displayed (new_effects st (showLocalNotification env (foreground_request msg) st))
   \<and> displayed (new_effects st (snd (backgroundMessageHandler env msg st))) =
      displayed (new_effects st (showLocalNotification env (background_request msg) st))
   \<and> length (displayed (new_effects st (snd (foregroundMessageHandler env msg st)))) =
      length (displayed (new_effects st (snd (backgroundMessageHandler env msg st))))
   \<and> req_data (foreground_request msg) = msg_data msg
   \<and> req_data (background_request msg) = msg_data msg
   \<and> req_title (foreground_request msg) = js_or (notification_title msg) (JStr default_title)
   \<and> req_title (background_request msg) =
        js_or (opt_prop (msg_data msg) ''title'') (JStr default_title)
   \<and> req_body (foreground_request msg) = js_or (notification_body msg) (JStr default_body)
   \<and> req_body (background_request msg) =
        js_or (opt_prop (msg_data msg) ''body'') (JStr default_body)
   \<and> (\<not> truthy (notification_title msg) \<and> \<not> truthy (notification_body msg)
        \<and> \<not> truthy (opt_prop (msg_data msg) ''title'')
        \<and> \<not> truthy (opt_prop (msg_data msg) ''body'')
      \<longrightarrow> foreground_request msg = background_request msg)"
proof -
  have fg: "displayed (new_effects st (snd (foregroundMessageHandler env msg st))) =
      render_calls (foreground_request msg)"
    by (rule foregroundMessageHandler_quiet)
  have bg: "displayed (new_effects st (snd (backgroundMessageHandler env msg st))) =
      render_calls (background_request msg)"
    by (rule displayed_backgroundMessageHandler)
  have len: "length (render_calls (foreground_request msg)) =
      length (render_calls (background_request msg))"
  proof (cases "printable_request (background_request msg)")
    case True
    with render_calls_printable [of "background_request msg"]
      render_calls_printable [of "foreground_request msg"] printable_request_handlers [of msg]
    show ?thesis by auto
  next
    case False
    with render_calls_not_printable [of "background_request msg"]
      render_calls_not_printable [of "foreground_request msg"] printable_request_handlers [of msg]
    show ?thesis by auto
  qed
  from fg bg len show ?thesis
    by (simp add: displayed_showLocalNotification)
       (simp add: foreground_request_def background_request_def js_or_def)
qed

theorem handlers_render_alike_witness:
  "\<not> truthy (notification_title ride_message) \<and> \<not> truthy (notification_body ride_message)
   \<and> \<not> truthy (opt_prop (msg_data ride_message) ''title'')
   \<and> \<not> truthy (opt_prop (msg_data ride_message) ''body'')
   \<and> foreground_request ride_message = background_request ride_message
   \<and> req_title (background_request ride_message) = JStr default_title
   \<and> map payload_title (displayed (new_effects initial_state
        (snd (backgroundMessageHandler nominal_env ride_message initial_state)))) =
      [JStr default_title]"
proof -
  have h: "\<not> truthy (notification_title ride_message)" "\<not> truthy (notification_body ride_message)"
    "\<not> truthy (opt_prop (msg_data ride_message) ''title'')"
    "\<not> truthy (opt_prop (msg_data ride_message) ''body'')"
    by (simp_all add: ride_message_def ride_data_def notification_title_def
        notification_body_def opt_prop_def get_prop_def)
  have t: "req_title (background_request ride_message) = JStr default_title"
    using h(3) by (simp add: background_request_def js_or_def)
  have r: "map payload_title (render_calls (background_request ride_message)) =
      [JStr default_title]"
    using t by (simp add: render_calls_def display_payload_of_def stringData_of_ride_data
        ride_message_def)
  from handlers_render_alike [of initial_state nominal_env ride_message] h t r
  show ?thesis by (simp add: displayed_showLocalNotification)
qed

text \<open>
  Claim C5, as stated, fails on the title: a data-only ride request (no notification
  block) whose data has a \<^verbatim>\<open>title\<close> entry is shown with that title, not with the default.
\<close>

theorem background_title_from_data_counterexample:
  "msg_notification titled_data_message = None
   \<and> opt_prop (msg_data titled_data_message) ''type'' = JStr ''ride_request''
   \<and> map payload_title (displayed (new_effects initial_state
         (snd (backgroundMessageHandler nominal_env titled_data_message initial_state)))) =
       [JStr ''Pickup at the airport'']
   \<and> JStr ''Pickup at the airport'' \<noteq> JStr default_title"
  by (simp add: displayed_backgroundMessageHandler render_calls_def display_payload_of_def
      titled_data_message_def titled_data_def stringData_of_def Object_keys_def
      set_string_prop_def opt_prop_def get_prop_def background_request_def js_or_def
      default_title_def)

text \<open>
  Claim C5, amended. For every background message whose \<^verbatim>\<open>data.type\<close> is \<^verbatim>\<open>ride_request\<close>:
  the data object has a JSON string, and when the storage write of that string succeeds
  the handler resolves and the key \<^verbatim>\<open>pendingRideRequest\<close> holds it. The handler makes one
  render call when \<^verbatim>\<open>String\<close> succeeds on every value of the data, and none when it
  throws on one; the title of the render call is \<^verbatim>\<open>data.title\<close> when the data has a truthy
  one and the default title otherwise, whether or not the message has a notification
  block.
\<close>

theorem background_ride_request_stored_and_shown:
  assumes "msg_data msg = Some d" and "get_prop d ''type'' = JStr ''ride_request''"
  shows "\<exists>s. JSON_stringify (JObj d) = Some s
     \<and> (setItem_outcome env ''pendingRideRequest'' s = Inr () \<longrightarrow>
          fst (backgroundMessageHandler env msg st) = Inr ()
          \<and> storage (snd (backgroundMessageHandler env msg st)) ''pendingRideRequest'' = Some s)
     \<and> map payload_title (displayed (new_effects st (snd (backgroundMessageHandler env msg st)))) =
          (if printable d then [js_or (get_prop d ''title'') (JStr default_title)] else [])
     \<and> (printable d \<and> \<not> truthy (get_prop d ''title'') \<longrightarrow>
          map payload_title
            (displayed (new_effects st (snd (backgroundMessageHandler env msg st)))) =
          [JStr default_title])"
proof -
  obtain s where s: "JSON_stringify (JObj d) = Some s" by simp
  let ?st1 = "showLocalNotification env (background_request msg) st"
  have run: "backgroundMessageHandler env msg st =
      AsyncStorage_setItem env ''pendingRideRequest'' s ?st1"
    using assms s by (rule backgroundMessageHandler_ride_request)
  have stored: "setItem_outcome env ''pendingRideRequest'' s = Inr () \<Longrightarrow>
      fst (backgroundMessageHandler env msg st) = Inr ()
      \<and> storage (snd (backgroundMessageHandler env msg st)) ''pendingRideRequest'' = Some s"
    by (simp add: run AsyncStorage_setItem_def)
  have pr: "printable_request (background_request msg) = printable d"
    using assms(1) by (simp add: printable_request_def)
  have title: "map payload_title
      (displayed (new_effects st (snd (backgroundMessageHandler env msg st)))) =
      (if printable d then [js_or (get_prop d ''title'') (JStr default_title)] else [])"
  proof (cases "printable d")
    case True
    with pr render_calls_printable [of "background_request msg"]
    obtain p where p: "render_calls (background_request msg) = [p]" by auto
    with render_calls_data [of p "background_request msg"]
    have "payload_title p = req_title (background_request msg)" by simp
    with p True assms(1) show ?thesis
      by (simp add: displayed_backgroundMessageHandler background_request_def opt_prop_def)
  next
    case False
    with pr render_calls_not_printable [of "background_request msg"]
    show ?thesis by (simp add: displayed_backgroundMessageHandler)
  qed
  from s stored title show ?thesis by (simp add: js_or_def)
qed

theorem background_ride_request_stored_and_shown_witness:
  "msg_data ride_message = Some ride_data \<and> get_prop ride_data ''type'' = JStr ''ride_request''
   \<and> setItem_outcome nominal_env ''pendingRideRequest''
        ''{\"type\":\"ride_request\",\"rideId\":\"7\"}'' = Inr ()
   \<and> printable ride_data \<and> \<not> truthy (get_prop ride_data ''title'')
   \<and> storage (snd (backgroundMessageHandler nominal_env ride_message initial_state))
        ''pendingRideRequest'' = Some ''{\"type\":\"ride_request\",\"rideId\":\"7\"}''
   \<and> map payload_title (displayed (new_effects initial_state
        (snd (backgroundMessageHandler nominal_env ride_message initial_state)))) =
        [JStr default_title]"
proof -
  have h1: "msg_data ride_message = Some ride_data"
    by (simp add: ride_message_def)
  have h2: "get_prop ride_data ''type'' = JStr ''ride_request''"
    by (simp add: ride_data_def get_prop_def)
  have h3: "setItem_outcome nominal_env ''pendingRideRequest''
        ''{\"type\":\"ride_request\",\"rideId\":\"7\"}'' = Inr ()"
    by (simp add: nominal_env_def)
  have h4: "\<not> truthy (get_prop ride_data ''title'')"
    by (simp add: ride_data_def get_prop_def)
  from background_ride_request_stored_and_shown [OF h1 h2, of nominal_env initial_state]
    h1 h2 h3 h4
  show ?thesis
    by (simp add: JSON_stringify_ride_data js_or_def printable_samples del: JSON_stringify.simps)
qed

text \<open>
  Claim C1 does not hold of the code. A failing render call is caught inside
  \<open>showLocalNotification\<close> and the handler resolves; but the storage write is awaited
  outside any \<^verbatim>\<open>try\<close>, so when it rejects, the handler rejects with the same error: here on
  the ride request of the example, first with a failing renderer, then with a failing
  storage.
\<close>

theorem backgroundMessageHandler_rejects_when_storage_fails:
  "fst (backgroundMessageHandler render_failing_env ride_message initial_state) = Inr ()
   \<and> fst (backgroundMessageHandler storage_failing_env ride_message initial_state) =
       Inl (Error ''storage write failed'')"
  by (simp add: backgroundMessageHandler_def Let_def ride_message_def JSON_stringify_ride_data
      AsyncStorage_setItem_def storage_failing_env_def render_failing_env_def nominal_env_def)
    (simp add: ride_data_def get_prop_def)

section \<open>Token refresh\<close>

text \<open>
  Claim C6 does not hold of the code. The token-refresh callback sends the new token to
  the backend and emits \<open>tokenRefresh\<close>; it assigns neither the field \<open>fcmToken\<close> nor the
  storage key \<^verbatim>\<open>fcmToken\<close>. After \<open>getFCMToken\<close> has cached and persisted \<^verbatim>\<open>token-1\<close>, a
  refresh to \<^verbatim>\<open>token-2\<close> leaves both at \<^verbatim>\<open>token-1\<close>.
\<close>

theorem tokenRefreshHandler_keeps_old_token:
  "fcmToken (snd (tokenRefreshHandler nominal_env ''token-2'' token_cached_state)) = Some ''token-1''
   \<and> storage (snd (tokenRefreshHandler nominal_env ''token-2'' token_cached_state)) ''fcmToken'' =
       Some ''token-1''"
  by (simp add: tokenRefreshHandler_fields token_cached_state_token)

section \<open>Initialisation and startup\<close>

text \<open>
  Claim C9. When the permission request reports a status that is neither authorized nor
  provisional, \<open>initializeNotifications\<close> returns \<^verbatim>\<open>false\<close> and does nothing else. When it
  reports authorized or provisional, \<open>initializeNotifications\<close> returns \<^verbatim>\<open>true\<close> and marks
  the service initialised, in every environment: also when channel creation, token
  retrieval, the token's storage write or a handler registration fails.
\<close>

theorem initializeNotifications_result:
  "(requestPermission env = Inr authStatus \<and> authStatus \<noteq> AUTHORIZED \<and> authStatus \<noteq> PROVISIONAL
      \<longrightarrow> initializeNotifications env st = (False, st))
   \<and> (requestPermission env = Inr AUTHORIZED \<or> requestPermission env = Inr PROVISIONAL
      \<longrightarrow> fst (initializeNotifications env st) = True
          \<and> notificationInitialized (snd (initializeNotifications env st)))"
  by (auto simp: initializeNotifications_def Let_def)

theorem initializeNotifications_result_witness:
  "requestPermission denied_env = Inr DENIED \<and> DENIED \<noteq> AUTHORIZED \<and> DENIED \<noteq> PROVISIONAL
   \<and> initializeNotifications denied_env initial_state = (False, initial_state)
   \<and> requestPermission provider_failing_env = Inr AUTHORIZED
   \<and> createChannel provider_failing_env = Inl (Error ''channel creation failed'')
   \<and> getToken provider_failing_env = Inl (Error ''token retrieval failed'')
   \<and> fst (initializeNotifications provider_failing_env initial_state) = True"
  using initializeNotifications_result [of denied_env DENIED initial_state]
        initializeNotifications_result [of provider_failing_env DENIED initial_state]
  by (simp add: denied_env_def provider_failing_env_def nominal_env_def)

text \<open>
  Claim C10. When \<^verbatim>\<open>getInitialNotification\<close> returns a notification whose \<^verbatim>\<open>data.type\<close> is
  \<^verbatim>\<open>ride_request\<close>, \<open>checkPendingNotifications\<close> sets one timer, of 3000 ms, that emits
  \<open>rideRequest\<close> with that notification's data, and calls no listener itself; when the
  timer fires, the \<open>rideRequest\<close> listeners registered by then are called with that data
  (each of them, in order, when none of them calls \<open>off\<close> for \<open>rideRequest\<close> meanwhile).
  When the type is anything else (or the notification has no data), it sets no timer and
  calls no listener.
\<close>

theorem checkPendingNotifications_schedules_ride_request:
  "(getInitialNotification env = Inr (Some (Some d)) \<and> get_prop d ''type'' = JStr ''ride_request''
      \<longrightarrow> timers (new_effects st (checkPendingNotifications env st)) =
            [(3000, ''rideRequest'', JObj d)]
          \<and> listener_calls (new_effects st (checkPendingNotifications env st)) = []
          \<and> (no_off_during env ''rideRequest'' (JObj d) (listeners_of st' ''rideRequest'') \<longrightarrow>
              listener_calls
                (new_effects st' (fire_timer env (SetTimeout 3000 ''rideRequest'' (JObj d)) st')) =
              map (\<lambda>cb. (''rideRequest'', cb, JObj d)) (listeners_of st' ''rideRequest'')))
   \<and> (getInitialNotification env = Inr (Some nd) \<and> opt_prop nd ''type'' \<noteq> JStr ''ride_request''
      \<longrightarrow> timers (new_effects st (checkPendingNotifications env st)) = []
          \<and> listener_calls (new_effects st (checkPendingNotifications env st)) = [])"
proof -
  have yes: "getInitialNotification env = Inr (Some (Some d)) \<Longrightarrow>
      get_prop d ''type'' = JStr ''ride_request'' \<Longrightarrow>
      timers (new_effects st (checkPendingNotifications env st)) = [(3000, ''rideRequest'', JObj d)]
      \<and> listener_calls (new_effects st (checkPendingNotifications env st)) = []"
    by (simp add: effects_checkPendingNotifications split: sum.splits)
  have fire: "no_off_during env ''rideRequest'' (JObj d) (listeners_of st' ''rideRequest'') \<Longrightarrow>
      listener_calls
      (new_effects st' (fire_timer env (SetTimeout 3000 ''rideRequest'' (JObj d)) st')) =
      map (\<lambda>cb. (''rideRequest'', cb, JObj d)) (listeners_of st' ''rideRequest'')"
    by (simp add: listener_calls_emit)
  have no: "getInitialNotification env = Inr (Some nd) \<Longrightarrow>
      opt_prop nd ''type'' \<noteq> JStr ''ride_request'' \<Longrightarrow>
      timers (new_effects st (checkPendingNotifications env st)) = []
      \<and> listener_calls (new_effects st (checkPendingNotifications env st)) = []"
    by (simp add: effects_checkPendingNotifications opt_prop_def split: sum.splits option.splits)
  from yes fire no show ?thesis by blast
qed

theorem checkPendingNotifications_schedules_ride_request_witness:
  "getInitialNotification (cold_start_env cold_start_data) = Inr (Some (Some cold_start_data))
   \<and> get_prop cold_start_data ''type'' = JStr ''ride_request''
   \<and> timers (new_effects initial_state
        (checkPendingNotifications (cold_start_env cold_start_data) initial_state)) =
       [(3000, ''rideRequest'', JObj [(''type'', JStr ''ride_request''), (''rideId'', JStr ''42'')])]
   \<and> no_off_during (cold_start_env cold_start_data) ''rideRequest'' (JObj cold_start_data)
        (listeners_of two_listeners_state ''rideRequest'')
   \<and> listener_calls (new_effects two_listeners_state
        (fire_timer (cold_start_env cold_start_data)
           (SetTimeout 3000 ''rideRequest'' (JObj cold_start_data)) two_listeners_state)) =
       [(''rideRequest'', 1, JObj cold_start_data), (''rideRequest'', 2, JObj cold_start_data)]
   \<and> getInitialNotification (cold_start_env [(''type'', JStr ''promo'')]) =
       Inr (Some (Some [(''type'', JStr ''promo'')]))
   \<and> opt_prop (Some [(''type'', JStr ''promo'')]) ''type'' \<noteq> JStr ''ride_request''
   \<and> timers (new_effects initial_state
        (checkPendingNotifications (cold_start_env [(''type'', JStr ''promo'')]) initial_state)) = []"
proof -
  have q: "no_off_during (cold_start_env cold_start_data) ''rideRequest'' (JObj cold_start_data)
        (listeners_of two_listeners_state ''rideRequest'')"
    by (simp add: no_off_during_def cold_start_env_def nominal_env_def)
  have g1: "getInitialNotification (cold_start_env cold_start_data) =
      Inr (Some (Some cold_start_data))"
    by (simp add: cold_start_env_def)
  have g2: "get_prop cold_start_data ''type'' = JStr ''ride_request''"
    by (simp add: cold_start_data_def get_prop_def)
  have g3: "getInitialNotification (cold_start_env [(''type'', JStr ''promo'')]) =
       Inr (Some (Some [(''type'', JStr ''promo'')]))"
    by (simp add: cold_start_env_def)
  have g4: "opt_prop (Some [(''type'', JStr ''promo'')]) ''type'' \<noteq> JStr ''ride_request''"
    by (simp add: opt_prop_def get_prop_def)
  from checkPendingNotifications_schedules_ride_request
          [of "cold_start_env cold_start_data" cold_start_data initial_state two_listeners_state
              "Some cold_start_data"]
        checkPendingNotifications_schedules_ride_request
          [of "cold_start_env [(''type'', JStr ''promo'')]" cold_start_data initial_state
              two_listeners_state "Some [(''type'', JStr ''promo'')]"]
        q g1 g2 g3 g4
  show ?thesis
    by (simp add: listeners_of_two_listeners_state) (simp add: cold_start_data_def)
qed

end
